theory Spec2Isabelle
  imports Main "HOL-Library.Sublist"
begin

section \<open>JavaScript values used by the services\<close>

text \<open>
  The services work on strings that may be absent (\<open>undefined\<close> or \<open>null\<close>): such a
  value is a \<open>string option\<close>. Strings are lists of characters; the model covers ASCII
  text, so the case mappings act on the letters A-Z and a-z and leave every other
  character alone, and white space is the ASCII white space that \<open>trim\<close> removes.
\<close>

definition truthy :: "string option \<Rightarrow> bool" where
  \<comment> \<open>JavaScript truthiness of a string-or-undefined: \<open>undefined\<close> and \<open>''\<close> are falsy.\<close>
  "truthy v = (case v of None \<Rightarrow> False | Some s \<Rightarrow> s \<noteq> [])"

definition js_or :: "string option \<Rightarrow> string option \<Rightarrow> string option" where
  \<comment> \<open>\<open>a || b\<close>\<close>
  "js_or a b = (if truthy a then a else b)"

definition or_empty :: "string option \<Rightarrow> string" where
  \<comment> \<open>\<open>a || ''\<close>\<close>
  "or_empty a = (case a of None \<Rightarrow> [] | Some s \<Rightarrow> s)"

definition template_str :: "string option \<Rightarrow> string" where
  \<comment> \<open>a value inside a template literal: \<open>undefined\<close> prints as the word\<close>
  "template_str v = (case v of None \<Rightarrow> ''undefined'' | Some s \<Rightarrow> s)"

definition nth_opt :: "'a list \<Rightarrow> nat \<Rightarrow> 'a option" where
  \<comment> \<open>\<open>xs[i]\<close>: \<open>undefined\<close> out of range\<close>
  "nth_opt xs i = (if i < length xs then Some (xs ! i) else None)"

definition toLowerCase_char :: "char \<Rightarrow> char" where
  "toLowerCase_char c =
     (if (65::nat) \<le> of_char c \<and> of_char c \<le> (90::nat)
      then (case c of Char b0 b1 b2 b3 b4 b5 b6 b7 \<Rightarrow> Char b0 b1 b2 b3 b4 True b6 b7)
      else c)"

definition toUpperCase_char :: "char \<Rightarrow> char" where
  "toUpperCase_char c =
     (if (97::nat) \<le> of_char c \<and> of_char c \<le> (122::nat)
      then (case c of Char b0 b1 b2 b3 b4 b5 b6 b7 \<Rightarrow> Char b0 b1 b2 b3 b4 False b6 b7)
      else c)"

definition toLowerCase :: "string \<Rightarrow> string" where
  "toLowerCase s = map toLowerCase_char s"

fun js_split :: "char \<Rightarrow> string \<Rightarrow> string list" where
  \<comment> \<open>\<open>s.split(sep)\<close> for a one-character separator; \<open>''.split(sep)\<close> is \<open>['']\<close>\<close>
  "js_split sep [] = [[]]"
| "js_split sep (c # cs) =
     (if c = sep then [] # js_split sep cs
      else (case js_split sep cs of [] \<Rightarrow> [[c]] | p # ps \<Rightarrow> (c # p) # ps))"

fun js_join :: "string \<Rightarrow> string list \<Rightarrow> string" where
  "js_join sep [] = []"
| "js_join sep [x] = x"
| "js_join sep (x # y # ys) = x @ sep @ js_join sep (y # ys)"

definition is_space :: "char \<Rightarrow> bool" where
  "is_space c = (of_char c \<in> set [9, 10, 11, 12, 13, 32 :: nat])"

definition js_trim :: "string \<Rightarrow> string" where
  "js_trim s = rev (dropWhile is_space (rev (dropWhile is_space s)))"

fun js_includes :: "string \<Rightarrow> string \<Rightarrow> bool" where
  \<comment> \<open>\<open>s.includes(sub)\<close>\<close>
  "js_includes [] sub = (sub = [])"
| "js_includes (c # cs) sub = (prefix sub (c # cs) \<or> js_includes cs sub)"

definition replace_slashes :: "string \<Rightarrow> string" where
  \<comment> \<open>\<open>s.replace(/\//g, '-')\<close>\<close>
  "replace_slashes s = map (\<lambda>c. if c = CHR ''/'' then CHR ''-'' else c) s"

definition blank :: "string option \<Rightarrow> bool" where
  \<comment> \<open>\<open>!v || v.trim() === ''\<close>\<close>
  "blank v = (\<not> truthy v \<or> js_trim (or_empty v) = [])"


section \<open>Name and date normalisation (WixService.js)\<close>

definition capitalize :: "string \<Rightarrow> string" where
  \<comment> \<open>\<open>word.charAt(0).toUpperCase() + word.slice(1)\<close>\<close>
  "capitalize word = (case word of [] \<Rightarrow> [] | c # cs \<Rightarrow> toUpperCase_char c # cs)"

definition toTitleCase :: "string option \<Rightarrow> string" where
  "toTitleCase str =
     (if \<not> truthy str then []
      else js_join '' '' (map capitalize (js_split (CHR '' '') (toLowerCase (or_empty str)))))"

definition firstNameVariations :: "string \<Rightarrow> string list" where
  \<comment> \<open>the argument is \<open>formattedFirstName\<close>\<close>
  "firstNameVariations formattedFirstName =
     (let firstNameParts = js_split (CHR '' '') formattedFirstName in
      [formattedFirstName]
      @ filter (\<lambda>part. 1 < length part) firstNameParts
      @ (if 1 < length firstNameParts then [firstNameParts ! 0] else []))"

definition formattedDOB :: "string option \<Rightarrow> string" where
  \<comment> \<open>\<open>findMember\<close> of the REST service: the array pattern \<open>[month, day, year]\<close> takes the
      first three pieces of \<open>dateOfBirth.split('-')\<close>, a missing piece being \<open>undefined\<close>.
      Nothing in the \<open>try\<close> block raises on a string, so its \<open>catch\<close> never runs.\<close>
  "formattedDOB dateOfBirth =
     (if \<not> truthy dateOfBirth then []
      else (let parts = js_split (CHR ''-'') (or_empty dateOfBirth);
                month = nth_opt parts 0; day = nth_opt parts 1; year = nth_opt parts 2
            in template_str year @ ''-'' @ template_str month @ ''-'' @ template_str day))"

definition originalDOB :: "string option \<Rightarrow> string" where
  "originalDOB dateOfBirth = (if \<not> truthy dateOfBirth then [] else or_empty dateOfBirth)"

definition formattedDob :: "string \<Rightarrow> string" where
  \<comment> \<open>\<open>searchMemberByNameOrDOB\<close> of WixDirectApi.js, for a truthy \<open>dob\<close>\<close>
  "formattedDob dob =
     (if CHR ''-'' \<in> set dob
      then (let parts = js_split (CHR ''-'') dob in
            if length parts = 3 \<and> length (parts ! 2) = 4
            then parts ! 2 @ ''-'' @ parts ! 0 @ ''-'' @ parts ! 1
            else dob)
      else dob)"


section \<open>The scan record reader (ScanIDService.js)\<close>

text \<open>
  A row of the export as \<open>csv-parse\<close> returns it with \<open>columns: true\<close>: one string per
  column of the header, \<open>undefined\<close> for a column the header does not have.
\<close>

record row =
  FIRST_NAME :: "string option"
  LAST_NAME :: "string option"
  FULL_NAME :: "string option"
  BIRTHDATE :: "string option"
  AGE :: "string option"
  DRV_LC_NO :: "string option"
  EXPIRES_ON :: "string option"
  ISSUED_ON :: "string option"
  CREATED :: "string option"
  Image1 :: "string option"

record ScanRecord =
  FirstName :: "string option"
  LastName :: "string option"
  FullName :: "string option"
  DateOfBirth :: "string option"
  Age :: "string option"
  IDNumber :: "string option"
  IDExpiration :: "string option"
  IDIssued :: "string option"
  ScanTime :: "string option"
  PhotoPath :: "string option"
  FingerprintHash :: "string option"

text \<open>
  What the reader finds on disk: no file, a file whose reading or parsing raises (with
  the message of the exception), or the parsed rows.
\<close>

datatype csv_file = Missing | Unreadable string | Parsed "row list"

text \<open>
  A JavaScript number that may be \<open>NaN\<close>. \<open>new Date(s)\<close> is a parameter \<open>Date\<close> of the
  reader: it gives the time value of the date, \<open>None\<close> for an Invalid Date, whose time
  value is \<open>NaN\<close>.
\<close>

type_synonym js_number = "int option"

definition date_minus :: "int option \<Rightarrow> int option \<Rightarrow> js_number" where
  \<comment> \<open>\<open>dateB - dateA\<close>\<close>
  "date_minus dateB dateA =
     (case (dateB, dateA) of (Some b, Some a) \<Rightarrow> Some (b - a) | _ \<Rightarrow> None)"

text \<open>
  \<open>Array.prototype.sort\<close> with a comparator: the sort is stable, reads a comparator
  result \<open>NaN\<close> as \<open>0\<close>, and an exception of the comparator leaves the sort. The model
  inserts each element, from the last to the first, before the first element it does not
  sort after. For a comparator that orders the elements consistently this is the result
  of every stable sort. For one that does not (a result \<open>NaN\<close> or \<open>0\<close> between rows of
  different dates), the language leaves the order to the engine, and the model keeps to
  the insertion: elements whose comparisons with their neighbours all give \<open>0\<close> stay
  where they are.
\<close>

definition sort_order :: "js_number \<Rightarrow> int" where
  "sort_order v = (case v of None \<Rightarrow> 0 | Some n \<Rightarrow> n)"

fun insert_by :: "('a \<Rightarrow> 'a \<Rightarrow> string + js_number) \<Rightarrow> 'a \<Rightarrow> 'a list \<Rightarrow> string + 'a list" where
  "insert_by comparefn x [] = Inr [x]"
| "insert_by comparefn x (y # ys) =
     (case comparefn x y of
        Inl err \<Rightarrow> Inl err
      | Inr v \<Rightarrow>
          if sort_order v \<le> 0 then Inr (x # y # ys)
          else (case insert_by comparefn x ys of Inl err \<Rightarrow> Inl err | Inr zs \<Rightarrow> Inr (y # zs)))"

fun js_sort :: "('a \<Rightarrow> 'a \<Rightarrow> string + js_number) \<Rightarrow> 'a list \<Rightarrow> string + 'a list" where
  "js_sort comparefn [] = Inr []"
| "js_sort comparefn (x # xs) =
     (case js_sort comparefn xs of Inl err \<Rightarrow> Inl err | Inr ys \<Rightarrow> insert_by comparefn x ys)"

definition date_part :: "string \<Rightarrow> string" where
  \<comment> \<open>\<open>created.split(' ')[0]\<close>\<close>
  "date_part created = js_split (CHR '' '') created ! 0"

definition undefined_split :: string where
  \<comment> \<open>the message of the TypeError of \<open>undefined.split\<close>\<close>
  "undefined_split = ''Cannot read properties of undefined (reading 'split')''"

definition compare_created :: "(string \<Rightarrow> int option) \<Rightarrow> row \<Rightarrow> row \<Rightarrow> string + js_number" where
  \<comment> \<open>the comparator of lines 44-48 and 183-187\<close>
  "compare_created Date a b =
     (case CREATED a of
        None \<Rightarrow> Inl undefined_split
      | Some createdA \<Rightarrow>
          (case CREATED b of
             None \<Rightarrow> Inl undefined_split
           | Some createdB \<Rightarrow>
               Inr (date_minus (Date (replace_slashes (date_part createdB)))
                               (Date (replace_slashes (date_part createdA))))))"

definition compare_created_safely :: "(string \<Rightarrow> int option) \<Rightarrow> row \<Rightarrow> row \<Rightarrow> string + js_number" where
  \<comment> \<open>the comparator of lines 115-134; nothing in its \<open>try\<close> block raises\<close>
  "compare_created_safely Date a b =
     (let dateAStr = (if truthy (CREATED a) then date_part (or_empty (CREATED a)) else []);
          dateBStr = (if truthy (CREATED b) then date_part (or_empty (CREATED b)) else [])
      in if dateAStr = [] \<or> dateBStr = [] then Inr (Some 0)
         else Inr (date_minus (Date (replace_slashes dateBStr)) (Date (replace_slashes dateAStr))))"

definition to_ScanRecord :: "row \<Rightarrow> string option \<Rightarrow> ScanRecord" where
  "to_ScanRecord latestRecord fingerprintHash =
     \<lparr> FirstName = FIRST_NAME latestRecord, LastName = LAST_NAME latestRecord,
       FullName = FULL_NAME latestRecord, DateOfBirth = BIRTHDATE latestRecord,
       Age = AGE latestRecord, IDNumber = DRV_LC_NO latestRecord,
       IDExpiration = EXPIRES_ON latestRecord, IDIssued = ISSUED_ON latestRecord,
       ScanTime = CREATED latestRecord, PhotoPath = Image1 latestRecord,
       FingerprintHash = fingerprintHash \<rparr>"

definition latest_by ::
  "(row \<Rightarrow> row \<Rightarrow> string + js_number) \<Rightarrow> csv_file \<Rightarrow> string + row" where
  \<comment> \<open>the part the three versions of \<open>getLatestScan\<close> share: the file checks, the sort
      and \<open>records[0]\<close>; an exception anywhere becomes \<open>{ error: err.message }\<close>\<close>
  "latest_by comparefn file =
     (case file of
        Missing \<Rightarrow> Inl ''Scan-ID CSV file not found''
      | Unreadable message \<Rightarrow> Inl message
      | Parsed records \<Rightarrow>
          if records = [] then Inl ''No records found in CSV file''
          else (case js_sort comparefn records of
                  Inl message \<Rightarrow> Inl message
                | Inr sorted_records \<Rightarrow>
                    (case sorted_records of
                       [] \<Rightarrow> Inl ''Cannot read properties of undefined''
                     | latestRecord # _ \<Rightarrow> Inr latestRecord)))"

definition getLatestScan :: "(string \<Rightarrow> int option) \<Rightarrow> csv_file \<Rightarrow> string + ScanRecord" where
  \<comment> \<open>lines 93-155, the version with the guarded comparator\<close>
  "getLatestScan Date file =
     (case latest_by (compare_created_safely Date) file of
        Inl message \<Rightarrow> Inl message
      | Inr latestRecord \<Rightarrow> Inr (to_ScanRecord latestRecord None))"

definition getLatestScan_unguarded :: "(string \<Rightarrow> int option) \<Rightarrow> csv_file \<Rightarrow> string + ScanRecord" where
  \<comment> \<open>lines 165-208\<close>
  "getLatestScan_unguarded Date file =
     (case latest_by (compare_created Date) file of
        Inl message \<Rightarrow> Inl message
      | Inr latestRecord \<Rightarrow> Inr (to_ScanRecord latestRecord None))"

definition getLatestScan_fingerprint ::
  "(string \<Rightarrow> int option) \<Rightarrow> (string option \<Rightarrow> string option) \<Rightarrow> csv_file \<Rightarrow> string + ScanRecord" where
  \<comment> \<open>lines 24-79; \<open>getFingerprintData\<close> (sqlService.js) returns the hash or \<open>null\<close>\<close>
  "getLatestScan_fingerprint Date getFingerprintData file =
     (case latest_by (compare_created Date) file of
        Inl message \<Rightarrow> Inl message
      | Inr latestRecord \<Rightarrow>
          (let fingerprintHash = getFingerprintData (FULL_NAME latestRecord) in
           if \<not> truthy fingerprintHash then Inl ''Fingerprint not found''
           else Inr (to_ScanRecord latestRecord fingerprintHash)))"

definition created_time :: "(string \<Rightarrow> int option) \<Rightarrow> row \<Rightarrow> int option" where
  \<comment> \<open>the capture timestamp of a row as the comparators read it; \<open>None\<close> when the field
      is missing, has no date part, or does not parse\<close>
  "created_time Date r =
     (case CREATED r of
        None \<Rightarrow> None
      | Some created \<Rightarrow>
          if date_part created = [] then None else Date (replace_slashes (date_part created)))"

text \<open>Rows and a date parser for the examples.\<close>

definition scan_row :: "string \<Rightarrow> string option \<Rightarrow> row" where
  "scan_row name created =
     \<lparr> FIRST_NAME = Some name, LAST_NAME = Some ''SMITH'', FULL_NAME = Some (name @ '' SMITH''),
       BIRTHDATE = Some ''03-22-1985'', AGE = Some ''39'', DRV_LC_NO = Some ''D1234567'',
       EXPIRES_ON = Some ''03-22-2028'', ISSUED_ON = Some ''03-22-2020'',
       CREATED = created, Image1 = Some ''photo.jpg'' \<rparr>"

definition example_Date :: "string \<Rightarrow> int option" where
  \<comment> \<open>the time values (UTC, in milliseconds) of the dates of the examples; any other
      string of the examples is not a date\<close>
  "example_Date s =
     (if s = ''01-01-2020'' then Some 1577836800000
      else if s = ''06-01-2024'' then Some 1717200000000
      else None)"

section \<open>The REST services (WixService.js, WixDirectApi.js)\<close>

text \<open>
  A member and a contact as the Members and Contacts endpoints return them. The services
  only read these objects, through optional chains such as \<open>member.profile?.nickname\<close>
  that give \<open>undefined\<close> when any step is missing, so each path read is one optional
  field; \<open>member_uid\<close> is the property \<open>_id\<close>, \<open>member_id\<close> the property \<open>id\<close>, and
  \<open>contact_emails_0\<close> is \<open>contact.emails[0]\<close>.
\<close>

record member =
  member_uid :: "string option"
  member_id :: "string option"
  member_memberId :: "string option"
  loginEmail :: "string option"
  profile_nickname :: "string option"
  profile_firstName :: "string option"
  profile_lastName :: "string option"
  profile_email :: "string option"
  profile_phone :: "string option"
  profile_photo_url :: "string option"
  contact_firstName :: "string option"
  contact_lastName :: "string option"
  contact_emails_0 :: "string option"
  contact_phones_0 :: "string option"
  contact_birthdate :: "string option"
  extendedFields_dob :: "string option"
  extendedFields_birthdate :: "string option"

record contact =
  contact_id :: "string option"
  memberInfo_id :: "string option"
  info_memberId :: "string option"
  info_id :: "string option"
  info_name_first :: "string option"
  info_name_last :: "string option"
  primaryEmail_email :: "string option"
  info_emails_0_email :: "string option"
  primaryPhone_phone :: "string option"
  info_phones_0_phone :: "string option"
  picture_image_url :: "string option"
  info_birthdate :: "string option"
  customFields_birthdate :: "string option"
  customFields_dob :: "string option"

text \<open>
  One entry of the \<open>members\<close> array that \<open>findMember\<close> returns. The contacts branch
  builds no \<open>nickname\<close> property.
\<close>

record found_member =
  res_id :: "string option"
  res_firstName :: string
  res_lastName :: string
  res_email :: string
  res_phone :: string
  res_picture :: string
  res_dateOfBirth :: string
  res_source :: string
  res_nickname :: "string option"

text \<open>
  A filter is \<open>{ fieldName, operator, value }\<close>; a request carries the filters that the
  endpoint combines with \<open>or\<close> (paging and field lists are constants of the source). The
  remote service is a parameter: it answers a request with the \<open>data\<close> of the response,
  or the request raises with a message.
\<close>

type_synonym filter = "string \<times> string \<times> string"

datatype rest_call =
  Members_query "filter list"
| Contacts_query "filter list"
| Contacts_search string

record rest_data =
  data_members :: "member list option"
  data_contacts :: "contact list option"

type_synonym rest_api = "rest_call \<Rightarrow> string + rest_data"

text \<open>
  The result of \<open>findMember\<close>: \<open>{ success: true, members }\<close> or
  \<open>{ success: false, error }\<close>.
\<close>

datatype find_result = Found "found_member list" | Failed string

definition name_and_dob_filters ::
  "string \<Rightarrow> string \<Rightarrow> string \<Rightarrow> string list \<Rightarrow> string \<Rightarrow> string \<Rightarrow> string \<Rightarrow> string \<Rightarrow> filter list" where
  \<comment> \<open>\<open>membersFilters\<close> and \<open>contactsFilters\<close>, which differ in the three name fields\<close>
  "name_and_dob_filters firstField lastField fullField
       variations formattedFirstName formattedLastName fDOB oDOB =
     map (\<lambda>nameVariation. (firstField, ''contains'', nameVariation)) variations
     @ (if formattedLastName \<noteq> [] then [(lastField, ''contains'', formattedLastName)] else [])
     @ (if fDOB \<noteq> []
        then [(''extendedFields.dob'', ''eq'', fDOB),
              (''extendedFields.birthdate'', ''eq'', fDOB),
              (''extendedFields.dateOfBirth'', ''eq'', fDOB),
              (''extendedFields.dob'', ''eq'', oDOB),
              (''extendedFields.birthdate'', ''eq'', oDOB),
              (''extendedFields.dateOfBirth'', ''eq'', oDOB)]
        else [])
     @ (if formattedFirstName \<noteq> [] \<and> formattedLastName \<noteq> []
        then [(fullField, ''contains'', js_trim (formattedFirstName @ '' '' @ formattedLastName))]
        else [])"

definition members_request :: "string option \<Rightarrow> string option \<Rightarrow> string option \<Rightarrow> rest_call" where
  "members_request firstName lastName dateOfBirth =
     Members_query
       (name_and_dob_filters ''profile.firstName'' ''profile.lastName'' ''profile.name''
          (firstNameVariations (toTitleCase firstName)) (toTitleCase firstName)
          (toTitleCase lastName) (formattedDOB dateOfBirth) (originalDOB dateOfBirth))"

definition contacts_request :: "string option \<Rightarrow> string option \<Rightarrow> string option \<Rightarrow> rest_call" where
  "contacts_request firstName lastName dateOfBirth =
     Contacts_query
       (name_and_dob_filters ''info.name.first'' ''info.name.last'' ''info.name.full''
          (firstNameVariations (toTitleCase firstName)) (toTitleCase firstName)
          (toTitleCase lastName) (formattedDOB dateOfBirth) (originalDOB dateOfBirth))"

definition simple_request :: "string option \<Rightarrow> string option \<Rightarrow> rest_call" where
  \<comment> \<open>the free-text search on the contacts endpoint\<close>
  "simple_request firstName lastName =
     Contacts_search (js_trim (toTitleCase firstName @ '' '' @ toTitleCase lastName))"

definition ensure_id :: "member \<Rightarrow> member" where
  "ensure_id m =
     (if \<not> truthy (member_uid m) \<and> truthy (member_id m) then m\<lparr>member_uid := member_id m\<rparr>
      else if \<not> truthy (member_uid m) \<and> truthy (member_memberId m)
      then m\<lparr>member_uid := member_memberId m\<rparr>
      else m)"

definition member_profile :: "member \<Rightarrow> found_member" where
  \<comment> \<open>the \<open>source === 'members'\<close> branch of the result processing\<close>
  "member_profile m =
     (let (firstName, lastName) =
            (if truthy (profile_nickname m)
             then (let nameParts = js_split (CHR '' '') (or_empty (profile_nickname m)) in
                   if 2 \<le> length nameParts
                   then (nameParts ! 0, js_join '' '' (drop 1 nameParts))
                   else (or_empty (profile_nickname m), []))
             else ([], []))
      in \<lparr> res_id = js_or (js_or (member_uid m) (member_id m)) (member_memberId m),
           res_firstName =
             or_empty (js_or (js_or (Some firstName) (profile_firstName m)) (contact_firstName m)),
           res_lastName =
             or_empty (js_or (js_or (Some lastName) (profile_lastName m)) (contact_lastName m)),
           res_email = or_empty (js_or (js_or (loginEmail m) (contact_emails_0 m)) (profile_email m)),
           res_phone = or_empty (js_or (contact_phones_0 m) (profile_phone m)),
           res_picture = or_empty (profile_photo_url m),
           res_dateOfBirth =
             or_empty (js_or (js_or (contact_birthdate m) (extendedFields_dob m))
                             (extendedFields_birthdate m)),
           res_source = ''members'',
           res_nickname = Some (or_empty (profile_nickname m)) \<rparr>)"

definition contact_profile :: "contact \<Rightarrow> found_member" where
  \<comment> \<open>the \<open>source === 'contacts'\<close> branch of the result processing\<close>
  "contact_profile c =
     \<lparr> res_id = js_or (js_or (js_or (memberInfo_id c) (info_memberId c)) (info_id c)) (contact_id c),
       res_firstName = or_empty (info_name_first c),
       res_lastName = or_empty (info_name_last c),
       res_email = or_empty (js_or (primaryEmail_email c) (info_emails_0_email c)),
       res_phone = or_empty (js_or (primaryPhone_phone c) (info_phones_0_phone c)),
       res_picture = or_empty (picture_image_url c),
       res_dateOfBirth =
         or_empty (js_or (js_or (info_birthdate c) (customFields_birthdate c)) (customFields_dob c)),
       res_source = ''contacts'',
       res_nickname = None \<rparr>"

text \<open>
  The variables \<open>results\<close> and \<open>source\<close> of \<open>findMember\<close> are set together: nothing
  found yet (\<open>[]\<close> and \<open>null\<close>), members, or contacts.
\<close>

datatype found = Nothing | From_members "member list" | From_contacts "contact list"

definition found_contacts :: "rest_data \<Rightarrow> found" where
  \<comment> \<open>\<open>if (response.data.contacts && response.data.contacts.length > 0)\<close>\<close>
  "found_contacts d =
     (case data_contacts d of
        None \<Rightarrow> Nothing
      | Some cs \<Rightarrow> if 0 < length cs then From_contacts cs else Nothing)"

definition found_members :: "rest_data \<Rightarrow> found" where
  "found_members d =
     (case data_members d of
        None \<Rightarrow> Nothing
      | Some ms \<Rightarrow> if 0 < length ms then From_members (map ensure_id ms) else Nothing)"

definition findMember ::
  "string option \<Rightarrow> rest_api \<Rightarrow> string option \<Rightarrow> string option \<Rightarrow> string option
     \<Rightarrow> find_result \<times> rest_call list" where
  \<comment> \<open>the result, and the requests sent, in order\<close>
  "findMember WIX_API_KEY api firstName lastName dateOfBirth =
     (if \<not> truthy WIX_API_KEY
      then (Failed ''Wix API key not set. Please add it to wix.config.json.'', [])
      else if blank firstName \<and> blank lastName \<and> blank dateOfBirth
      then (Failed ''At least one search parameter (firstName, lastName, or dateOfBirth) is required'',
            [])
      else
        (let membersCall = members_request firstName lastName dateOfBirth;
             contactsCall = contacts_request firstName lastName dateOfBirth;
             simpleCall = simple_request firstName lastName;
             fromMembers = (case api membersCall of Inl _ \<Rightarrow> Nothing | Inr d \<Rightarrow> found_members d);
             (results, calls) =
               (if fromMembers = Nothing
                then (case api contactsCall of
                        Inr d \<Rightarrow> (found_contacts d, [membersCall, contactsCall])
                      | Inl _ \<Rightarrow>
                          ((case api simpleCall of Inl _ \<Rightarrow> Nothing | Inr d \<Rightarrow> found_contacts d),
                           [membersCall, contactsCall, simpleCall]))
                else (fromMembers, [membersCall]))
         in (case results of
               From_members ms \<Rightarrow> (Found (map member_profile ms), calls)
             | From_contacts cs \<Rightarrow> (Found (map contact_profile cs), calls)
             | Nothing \<Rightarrow> (Failed ''No members found matching the search criteria'', calls))))"

text \<open>
  \<open>searchMemberByNameOrDOB\<close> of WixDirectApi.js returns the raw members or contacts:
  \<open>{ success: true, source, results }\<close> with the source "none", "members" or
  "contacts", or \<open>{ success: false, error }\<close>.
\<close>

datatype search_result =
  No_criteria
| Members_result "member list"
| Contacts_result "contact list"
| Search_failed string

definition search_success :: "search_result \<Rightarrow> bool" where
  "search_success r = (case r of Search_failed _ \<Rightarrow> False | _ \<Rightarrow> True)"

definition search_source :: "search_result \<Rightarrow> string option" where
  "search_source r =
     (case r of
        No_criteria \<Rightarrow> Some ''none''
      | Members_result _ \<Rightarrow> Some ''members''
      | Contacts_result _ \<Rightarrow> Some ''contacts''
      | Search_failed _ \<Rightarrow> None)"

definition part_filters :: "string \<Rightarrow> string \<Rightarrow> string \<Rightarrow> string \<Rightarrow> string \<Rightarrow> filter list" where
  \<comment> \<open>the filters for a truthy \<open>name\<close>: four per non-blank part, then the whole name\<close>
  "part_filters firstField lastField fullField customField name =
     concat (map (\<lambda>part. [(firstField, ''contains'', part), (lastField, ''contains'', part),
                           (fullField, ''contains'', part), (customField, ''contains'', part)])
                 (filter (\<lambda>part. 0 < length (js_trim part)) (js_split (CHR '' '') name)))
     @ [(fullField, ''contains'', name)]"

definition dob_filters :: "string \<Rightarrow> filter list" where
  "dob_filters dob =
     [(''extendedFields.dob'', ''eq'', formattedDob dob),
      (''extendedFields.birthdate'', ''eq'', formattedDob dob),
      (''extendedFields.dateOfBirth'', ''eq'', formattedDob dob)]"

definition direct_members_filters :: "string option \<Rightarrow> string option \<Rightarrow> filter list" where
  "direct_members_filters name dob =
     (if truthy name
      then part_filters ''profile.firstName'' ''profile.lastName'' ''profile.name''
             ''extendedFields.fullName'' (or_empty name)
      else [])
     @ (if truthy dob then dob_filters (or_empty dob) else [])"

definition direct_contacts_filters :: "string option \<Rightarrow> string option \<Rightarrow> filter list" where
  "direct_contacts_filters name dob =
     (if truthy name
      then part_filters ''info.name.first'' ''info.name.last'' ''info.name.full''
             ''customFields.fullName'' (or_empty name)
      else [])
     @ (if truthy dob then dob_filters (or_empty dob) else [])"

definition ensure_id_direct :: "member \<Rightarrow> member" where
  "ensure_id_direct m =
     (if \<not> truthy (member_uid m) \<and> truthy (member_id m) then m\<lparr>member_uid := member_id m\<rparr> else m)"

definition searchMemberByNameOrDOB ::
  "bool \<Rightarrow> rest_api \<Rightarrow> string option \<Rightarrow> string option \<Rightarrow> search_result \<times> rest_call list" where
  "searchMemberByNameOrDOB initialized api name dob =
     (if \<not> initialized then (Search_failed ''Wix Direct API not properly initialized'', [])
      else if length (direct_members_filters name dob) = 0 then (No_criteria, [])
      else
        (let membersCall = Members_query (direct_members_filters name dob);
             contactsCall = Contacts_query (direct_contacts_filters name dob);
             membersResponse =
               (case api membersCall of
                  Inl _ \<Rightarrow> \<lparr> data_members = Some [], data_contacts = None \<rparr>
                | Inr d \<Rightarrow> d)
         in (case data_members membersResponse of
               Some (m # ms) \<Rightarrow> (Members_result (map ensure_id_direct (m # ms)), [membersCall])
             | _ \<Rightarrow>
                 (let contactsResponse =
                        (case api contactsCall of
                           Inl _ \<Rightarrow> \<lparr> data_members = None, data_contacts = Some [] \<rparr>
                         | Inr d \<Rightarrow> d)
                  in (Contacts_result (case data_contacts contactsResponse of
                                         None \<Rightarrow> [] | Some cs \<Rightarrow> cs),
                      [membersCall, contactsCall])))))"

text \<open>
  What a request yields: the members (or contacts) of its answer, none when the request
  raises or the answer has no such array.
\<close>

definition members_in :: "string + rest_data \<Rightarrow> member list" where
  "members_in response =
     (case response of
        Inl _ \<Rightarrow> []
      | Inr d \<Rightarrow> (case data_members d of None \<Rightarrow> [] | Some ms \<Rightarrow> ms))"

definition contacts_in :: "string + rest_data \<Rightarrow> contact list" where
  "contacts_in response =
     (case response of
        Inl _ \<Rightarrow> []
      | Inr d \<Rightarrow> (case data_contacts d of None \<Rightarrow> [] | Some cs \<Rightarrow> cs))"

text \<open>Remote services and objects for the examples.\<close>

definition example_member :: "string \<Rightarrow> string \<Rightarrow> member" where
  "example_member uid nick =
     \<lparr> member_uid = Some uid, member_id = None, member_memberId = None, loginEmail = None,
       profile_nickname = Some nick, profile_firstName = None, profile_lastName = None,
       profile_email = None, profile_phone = None, profile_photo_url = None,
       contact_firstName = None, contact_lastName = None, contact_emails_0 = None,
       contact_phones_0 = None, contact_birthdate = Some ''1990-01-15'',
       extendedFields_dob = None, extendedFields_birthdate = None \<rparr>"

definition example_contact :: "string \<Rightarrow> string \<Rightarrow> string \<Rightarrow> contact" where
  "example_contact cid firstName lastName =
     \<lparr> contact_id = Some cid, memberInfo_id = None, info_memberId = None, info_id = None,
       info_name_first = Some firstName, info_name_last = Some lastName, primaryEmail_email = None,
       info_emails_0_email = None, primaryPhone_phone = None, info_phones_0_phone = None,
       picture_image_url = None, info_birthdate = Some ''1990-01-15'',
       customFields_birthdate = None, customFields_dob = None \<rparr>"

definition answers :: "member list \<Rightarrow> contact list \<Rightarrow> rest_api" where
  \<comment> \<open>a service whose Members endpoint answers \<open>ms\<close> and whose Contacts endpoint answers
      \<open>cs\<close>, whatever the filters\<close>
  "answers ms cs call =
     (case call of
        Members_query _ \<Rightarrow> Inr \<lparr> data_members = Some ms, data_contacts = None \<rparr>
      | _ \<Rightarrow> Inr \<lparr> data_members = None, data_contacts = Some cs \<rparr>)"

definition unreachable :: rest_api where
  \<comment> \<open>every request raises\<close>
  "unreachable call = Inl ''Network Error''"

section \<open>The contact search of the SDK adapter (WixSdkAdapter.js, CRM contacts)\<close>

text \<open>
  A contact as \<open>queryContacts\<close> returns it; the search reads its \<open>_id\<close> (\<open>crm_uid\<close>)
  only, the name stands for the rest of the object. An entry of \<open>items\<close> may be \<open>null\<close>.
  A request is a query with an optional \<open>startsWith\<close> filter and a limit; \<open>find()\<close>
  raises with a message or gives the \<open>items\<close> of the response, which may be missing.
\<close>

record crm_contact =
  crm_uid :: "string option"
  crm_name_first :: "string option"
  crm_name_last :: "string option"

datatype crm_call = Starts_with string string nat | All_contacts nat

type_synonym crm_api = "crm_call \<Rightarrow> string + crm_contact option list option"

record crm_result =
  items :: "crm_contact list"
  total :: nat
  crm_source :: string
  queryDetails_firstName :: string
  queryDetails_lastName :: string
  queryDetails_dateOfBirth :: string
  queryDetails_methodUsed :: string

text \<open>
  The result of the search: \<open>{ success: true, items, total, source, queryDetails }\<close> or
  \<open>{ success: false, error, source: 'wix-crm-contacts' }\<close>.
\<close>

datatype crm_outcome = Crm_ok crm_result | Crm_failed string

definition pushed_items :: "string + crm_contact option list option \<Rightarrow> crm_contact option list" where
  \<comment> \<open>what \<open>if (response.items && response.items.length > 0) results.push(...response.items)\<close>
      adds, inside a \<open>try\<close> whose \<open>catch\<close> only logs\<close>
  "pushed_items response =
     (case response of
        Inl _ \<Rightarrow> []
      | Inr response_items \<Rightarrow>
          (case response_items of
             None \<Rightarrow> []
           | Some xs \<Rightarrow> if 0 < length xs then xs else []))"

fun firstNameResults :: "crm_api \<Rightarrow> string list \<Rightarrow> crm_contact option list" where
  \<comment> \<open>the loop over \<open>firstNameParts\<close>, one query for each part\<close>
  "firstNameResults api [] = []"
| "firstNameResults api (namePart # rest) =
     pushed_items (api (Starts_with ''info.name.first'' namePart 50)) @ firstNameResults api rest"

text \<open>
  A \<open>Map\<close> keeps its keys in the order of their first insertion; \<open>set\<close> on a key that
  is present replaces the value in place.
\<close>

fun map_set :: "'k \<Rightarrow> 'v \<Rightarrow> ('k \<times> 'v) list \<Rightarrow> ('k \<times> 'v) list" where
  "map_set k v [] = [(k, v)]"
| "map_set k v ((k', v') # m) = (if k' = k then (k, v) # m else (k', v') # map_set k v m)"

definition set_contact ::
  "(string \<times> crm_contact) list \<Rightarrow> crm_contact option \<Rightarrow> (string \<times> crm_contact) list" where
  \<comment> \<open>\<open>if (contact && contact._id) uniqueContacts.set(contact._id, contact)\<close>\<close>
  "set_contact m contact =
     (case contact of
        None \<Rightarrow> m
      | Some c \<Rightarrow> if truthy (crm_uid c) then map_set (or_empty (crm_uid c)) c m else m)"

definition uniqueContacts :: "crm_contact option list \<Rightarrow> (string \<times> crm_contact) list" where
  "uniqueContacts results = foldl set_contact [] results"

definition title_words :: "string \<Rightarrow> string list" where
  \<comment> \<open>\<open>s.trim().toLowerCase().split(' ').map(word => ...)\<close>\<close>
  "title_words s = map capitalize (js_split (CHR '' '') (toLowerCase (js_trim s)))"

definition collect_contacts ::
  "crm_api \<Rightarrow> string list \<Rightarrow> string \<Rightarrow> crm_contact option list \<times> crm_call list" where
  \<comment> \<open>the queries of \<open>searchMember\<close>: the array \<open>results\<close> before the duplicates are
      removed, and the queries sent, in order\<close>
  "collect_contacts api firstNameParts formattedLastName =
     (let firstNameCalls = map (\<lambda>namePart. Starts_with ''info.name.first'' namePart 50) firstNameParts;
          fromFirstName = firstNameResults api firstNameParts;
          lastNameCall = Starts_with ''info.name.last'' formattedLastName 50;
          fromLastName =
            (if formattedLastName \<noteq> [] then pushed_items (api lastNameCall) else []);
          hasFilters = (0 < length fromFirstName \<or> 0 < length fromLastName)
      in if \<not> hasFilters
         then ((case api (All_contacts 50) of
                  Inl _ \<Rightarrow> []
                | Inr response_items \<Rightarrow> (case response_items of None \<Rightarrow> [] | Some xs \<Rightarrow> xs)),
               firstNameCalls
               @ (if formattedLastName \<noteq> [] then [lastNameCall] else [])
               @ [All_contacts 50])
         else (fromFirstName @ fromLastName,
               firstNameCalls @ (if formattedLastName \<noteq> [] then [lastNameCall] else [])))"

definition crm_firstNameParts :: "string option \<Rightarrow> string list" where
  "crm_firstNameParts firstName =
     (if \<not> blank firstName then title_words (or_empty firstName) else [])"

definition crm_formattedLastName :: "string option \<Rightarrow> string" where
  "crm_formattedLastName lastName =
     (if \<not> blank lastName then js_join '' '' (title_words (or_empty lastName)) else [])"

definition searchMember_crm ::
  "string option \<Rightarrow> crm_api \<Rightarrow> string option \<Rightarrow> string option \<Rightarrow> string option
     \<Rightarrow> crm_outcome \<times> crm_call list" where
  \<comment> \<open>\<open>initialize_error\<close> is the message with which \<open>initialize()\<close> raises, if it does\<close>
  "searchMember_crm initialize_error api firstName lastName dateOfBirth =
     (case initialize_error of
        Some message \<Rightarrow> (Crm_failed message, [])
      | None \<Rightarrow>
          (let firstNameParts = crm_firstNameParts firstName;
               formattedLastName = crm_formattedLastName lastName;
               (results, calls) = collect_contacts api firstNameParts formattedLastName;
               unique = map snd (uniqueContacts results)
           in (Crm_ok \<lparr> items = unique, total = length unique, crm_source = ''wix-crm-contacts'',
                        queryDetails_firstName = js_join '', '' firstNameParts,
                        queryDetails_lastName = formattedLastName,
                        queryDetails_dateOfBirth = or_empty dateOfBirth,
                        queryDetails_methodUsed = ''queryContacts'' \<rparr>,
               calls)))"

definition all_contacts :: "crm_api \<Rightarrow> crm_contact option list" where
  \<comment> \<open>what the unfiltered query yields: \<open>response.items || []\<close>, or \<open>[]\<close> when it raises\<close>
  "all_contacts api =
     (case api (All_contacts 50) of
        Inl _ \<Rightarrow> []
      | Inr response_items \<Rightarrow> (case response_items of None \<Rightarrow> [] | Some xs \<Rightarrow> xs))"


definition last_with_id :: "crm_contact option list \<Rightarrow> string \<Rightarrow> crm_contact option option" where
  \<comment> \<open>the last entry of \<open>results\<close> that carries the identifier \<open>k\<close>\<close>
  "last_with_id results k =
     find (\<lambda>x. case x of None \<Rightarrow> False | Some c \<Rightarrow> crm_uid c = Some k) (rev results)"


section \<open>The member search of the SDK adapter (WixSdkAdapter.js, members module)\<close>

record sdk_member =
  sm_uid :: "string option"
  sm_firstName :: "string option"
  sm_lastName :: "string option"
  sm_dateOfBirth :: "string option"

text \<open>
  The state of the adapter and of the SDK it finds: whether \<open>initialize()\<close> raises,
  whether the client has a members module, and which of its methods are functions.
\<close>

record sdk_client =
  initialize_raises :: "string option"
  membersModule :: bool
  has_queryMembers :: bool
  has_listMembers :: bool
  sdkVersion :: string

datatype members_call =
  Query_members "string option" "string option" "string option"
| List_members

type_synonym members_api = "members_call \<Rightarrow> string + sdk_member list option"

text \<open>
  The result: \<open>{ success: true, results, resultCount, source: 'wix-sdk' }\<close>, or
  \<open>{ success: false, error }\<close> with the source when the result names one.
\<close>

datatype sdk_outcome = Sdk_ok "sdk_member list" | Sdk_failed string "string option"

definition trimmed :: "string option \<Rightarrow> string option" where
  \<comment> \<open>a property of \<open>searchParams\<close>: set when the argument is not blank\<close>
  "trimmed v = (if \<not> blank v then Some (js_trim (or_empty v)) else None)"

definition list_match :: "string option \<Rightarrow> string option \<Rightarrow> string option \<Rightarrow> sdk_member \<Rightarrow> bool" where
  \<comment> \<open>the manual filter of the \<open>listMembers\<close> branch\<close>
  "list_match pFirst pLast pDob member =
     ((case pFirst of
         None \<Rightarrow> True
       | Some f \<Rightarrow> truthy (sm_firstName member)
           \<and> js_includes (toLowerCase (or_empty (sm_firstName member))) (toLowerCase f))
      \<and> (case pLast of
         None \<Rightarrow> True
       | Some l \<Rightarrow> truthy (sm_lastName member)
           \<and> js_includes (toLowerCase (or_empty (sm_lastName member))) (toLowerCase l))
      \<and> (case pDob of
         None \<Rightarrow> True
       | Some d \<Rightarrow> sm_dateOfBirth member = Some d))"

definition searchMember ::
  "sdk_client \<Rightarrow> members_api \<Rightarrow> string option \<Rightarrow> string option \<Rightarrow> string option
     \<Rightarrow> sdk_outcome \<times> members_call list" where
  \<comment> \<open>the exported \<open>searchMember\<close>: the method of the adapter inside the wrapper that turns
      an exception into \<open>{ success: false, error, source: 'wix-sdk-adapter' }\<close>\<close>
  "searchMember client api firstName lastName dateOfBirth =
     (case initialize_raises client of
        Some message \<Rightarrow> (Sdk_failed message (Some ''wix-sdk-adapter''), [])
      | None \<Rightarrow>
          if \<not> membersModule client
          then (Sdk_failed ''Members module not available in the SDK client'' (Some ''wix-sdk-adapter''),
                [])
          else if trimmed firstName = None \<and> trimmed lastName = None \<and> trimmed dateOfBirth = None
          then (Sdk_failed
                  ''At least one search parameter (firstName, lastName, or dateOfBirth) is required''
                  None,
                [])
          else if has_queryMembers client
          then (let call = Query_members (trimmed firstName) (trimmed lastName) (trimmed dateOfBirth) in
                case api call of
                  Inl message \<Rightarrow>
                    (Sdk_failed (''Error searching for members: '' @ message) (Some ''wix-sdk''), [call])
                | Inr response_members \<Rightarrow>
                    (Sdk_ok (case response_members of None \<Rightarrow> [] | Some ms \<Rightarrow> ms), [call]))
          else if has_listMembers client
          then (case api List_members of
                  Inl message \<Rightarrow>
                    (Sdk_failed (''Error searching for members: '' @ message) (Some ''wix-sdk''),
                     [List_members])
                | Inr response_members \<Rightarrow>
                    (Sdk_ok (filter (list_match (trimmed firstName) (trimmed lastName)
                                       (trimmed dateOfBirth))
                               (case response_members of None \<Rightarrow> [] | Some ms \<Rightarrow> ms)),
                     [List_members]))
          else (Sdk_failed
                  (''Error searching for members: No compatible member search method found in SDK v''
                   @ sdkVersion client)
                  (Some ''wix-sdk''),
                []))"


section \<open>The member lookup through the SDK (WixService.js, SDK version)\<close>

record contact_details =
  cd_firstName :: "string option"
  cd_lastName :: "string option"
  cd_email :: "string option"
  cd_phone :: "string option"

record data_item =
  item_uid :: "string option"
  contactDetails :: "contact_details option"
  item_dateOfBirth :: "string option"
  item_status :: "string option"
  item_createdDate :: "string option"
  item_extendedFields :: "(string \<times> string) list option"

record sdk_profile =
  sp_id :: "string option"
  sp_source :: string
  sp_firstName :: string
  sp_lastName :: string
  sp_fullName :: string
  sp_email :: string
  sp_phone :: string
  sp_dateOfBirth :: string
  sp_status :: string
  sp_createdDate :: string
  sp_membershipStatus :: string
  sp_extendedFields :: "(string \<times> string) list"

record sdk_found =
  found_profiles :: "sdk_profile list"
  found_count :: nat
  exactMatch :: bool
  found_message :: string

text \<open>
  The result: \<open>{ success: true, members, count, exactMatch, message }\<close> or
  \<open>{ success: false, error }\<close>. The one request is the query of the collection
  "Members" for the items whose status is "ACTIVE".
\<close>

datatype sdk_find_result = Sdk_found sdk_found | Sdk_find_failed string

datatype items_call = Query_items string string string

type_synonym items_api = "items_call \<Rightarrow> string + data_item list"

function show_nat :: "nat \<Rightarrow> string" where
  \<comment> \<open>a number inside a template literal\<close>
  "show_nat n =
     (if n < 10 then [''0123456789'' ! n]
      else show_nat (n div 10) @ [''0123456789'' ! (n mod 10)])"
  by pat_completeness auto
termination
  by (relation "measure id") auto

declare show_nat.simps [simp del]

definition no_details :: contact_details where
  \<comment> \<open>\<open>{}\<close>\<close>
  "no_details = \<lparr> cd_firstName = None, cd_lastName = None, cd_email = None, cd_phone = None \<rparr>"

definition contactInfo :: "data_item \<Rightarrow> contact_details" where
  \<comment> \<open>\<open>member.contactDetails || {}\<close>\<close>
  "contactInfo member = (case contactDetails member of None \<Rightarrow> no_details | Some cd \<Rightarrow> cd)"

definition matchingMember ::
  "string list \<Rightarrow> string \<Rightarrow> string \<Rightarrow> string option \<Rightarrow> data_item \<Rightarrow> bool" where
  \<comment> \<open>the predicate of \<open>membersQuery.items.filter\<close>\<close>
  "matchingMember variations formattedFirstName formattedLastName dateOfBirth member =
     (case contactDetails member of
        None \<Rightarrow> False
      | Some cd \<Rightarrow>
          (let memberFirstName = or_empty (cd_firstName cd);
               memberLastName = or_empty (cd_lastName cd);
               memberDob = or_empty (item_dateOfBirth member);
               firstNameMatch =
                 list_ex (\<lambda>variation. js_includes (toLowerCase memberFirstName) (toLowerCase variation))
                   variations;
               lastNameMatch =
                 (formattedLastName \<noteq> []
                  \<and> js_includes (toLowerCase memberLastName) (toLowerCase formattedLastName));
               dobMatch =
                 (if \<not> blank dateOfBirth then memberDob = replace_slashes (or_empty dateOfBirth)
                  else True)
           in (firstNameMatch \<or> formattedFirstName = [])
              \<and> (lastNameMatch \<or> formattedLastName = [])
              \<and> dobMatch))"

definition to_profile :: "data_item \<Rightarrow> sdk_profile" where
  "to_profile member =
     \<lparr> sp_id = item_uid member,
       sp_source = ''wix-sdk'',
       sp_firstName = or_empty (cd_firstName (contactInfo member)),
       sp_lastName = or_empty (cd_lastName (contactInfo member)),
       sp_fullName = js_trim (or_empty (cd_firstName (contactInfo member)) @ '' ''
                              @ or_empty (cd_lastName (contactInfo member))),
       sp_email = or_empty (cd_email (contactInfo member)),
       sp_phone = or_empty (cd_phone (contactInfo member)),
       sp_dateOfBirth = or_empty (item_dateOfBirth member),
       sp_status = or_empty (item_status member),
       sp_createdDate = or_empty (item_createdDate member),
       sp_membershipStatus = or_empty (item_status member),
       sp_extendedFields = (case item_extendedFields member of None \<Rightarrow> [] | Some fs \<Rightarrow> fs) \<rparr>"

definition exact_match :: "string \<Rightarrow> string \<Rightarrow> string option \<Rightarrow> data_item \<Rightarrow> bool" where
  \<comment> \<open>\<open>exactFirstNameMatch && exactLastNameMatch && exactDobMatch\<close>\<close>
  "exact_match formattedFirstName formattedLastName dateOfBirth member =
     (truthy (cd_firstName (contactInfo member))
      \<and> toLowerCase (or_empty (cd_firstName (contactInfo member))) = toLowerCase formattedFirstName
      \<and> truthy (cd_lastName (contactInfo member))
      \<and> toLowerCase (or_empty (cd_lastName (contactInfo member))) = toLowerCase formattedLastName
      \<and> truthy dateOfBirth
      \<and> item_dateOfBirth member = dateOfBirth)"

fun add_profiles ::
  "(data_item \<Rightarrow> bool) \<Rightarrow> data_item list \<Rightarrow> sdk_profile list \<times> bool \<Rightarrow> sdk_profile list \<times> bool" where
  \<comment> \<open>the loop over \<open>matchingMembers\<close>, on the variables \<open>results\<close> and \<open>foundExactMatch\<close>;
      the first argument is the exact-match test\<close>
  "add_profiles is_exact [] (results, foundExactMatch) = (results, foundExactMatch)"
| "add_profiles is_exact (member # rest) (results, foundExactMatch) =
     (if is_exact member
      then add_profiles is_exact rest (to_profile member # results, True)
      else add_profiles is_exact rest (results @ [to_profile member], foundExactMatch))"

definition matchingMembers ::
  "string option \<Rightarrow> string option \<Rightarrow> string option \<Rightarrow> data_item list \<Rightarrow> data_item list" where
  "matchingMembers firstName lastName dateOfBirth membersQuery_items =
     filter (matchingMember (firstNameVariations (toTitleCase firstName)) (toTitleCase firstName)
               (toTitleCase lastName) dateOfBirth)
       membersQuery_items"

definition findMember_sdk ::
  "string option \<Rightarrow> string option \<Rightarrow> items_api \<Rightarrow> string option \<Rightarrow> string option \<Rightarrow> string option
     \<Rightarrow> sdk_find_result \<times> items_call list" where
  \<comment> \<open>the second argument is the message with which \<open>adapter.initialize()\<close> raises, if it
      does\<close>
  "findMember_sdk WIX_API_KEY initialize_error api firstName lastName dateOfBirth =
     (if \<not> truthy WIX_API_KEY
      then (Sdk_find_failed ''Wix API key not set. Please add it to wix.config.json.'', [])
      else if blank firstName \<and> blank lastName \<and> blank dateOfBirth
      then (Sdk_find_failed
              ''At least one search parameter (firstName, lastName, or dateOfBirth) is required'',
            [])
      else
        (case initialize_error of
           Some message \<Rightarrow> (Sdk_find_failed (''Error finding member: '' @ message), [])
         | None \<Rightarrow>
             (let formattedFirstName = toTitleCase firstName;
                  formattedLastName = toTitleCase lastName;
                  call = Query_items ''Members'' ''status'' ''ACTIVE''
              in case api call of
                   Inl message \<Rightarrow> (Sdk_find_failed (''Error finding member: '' @ message), [call])
                 | Inr membersQuery_items \<Rightarrow>
                     (let (results, foundExactMatch) =
                            add_profiles (exact_match formattedFirstName formattedLastName dateOfBirth)
                              (matchingMembers firstName lastName dateOfBirth membersQuery_items)
                              ([], False)
                      in (Sdk_found
                            \<lparr> found_profiles = results, found_count = length results,
                              exactMatch = foundExactMatch,
                              found_message =
                                (if 0 < length results
                                 then ''Found '' @ show_nat (length results) @ '' matching members''
                                      @ (if foundExactMatch then '' (with exact match)'' else [])
                                 else ''No matching members found'') \<rparr>,
                          [call])))))"

text \<open>Contacts and members for the examples.\<close>

definition crm_example :: "string \<Rightarrow> string \<Rightarrow> crm_contact" where
  "crm_example uid name = \<lparr> crm_uid = Some uid, crm_name_first = Some name, crm_name_last = Some ''Doe'' \<rparr>"

definition all_contacts_only :: "crm_contact option list \<Rightarrow> crm_api" where
  \<comment> \<open>a contact directory that answers the unfiltered query with \<open>xs\<close>\<close>
  "all_contacts_only xs call =
     (case call of All_contacts _ \<Rightarrow> Inr (Some xs) | Starts_with _ _ _ \<Rightarrow> Inr (Some []))"

definition first_names_only :: "(string \<times> crm_contact option list) list \<Rightarrow> crm_api" where
  \<comment> \<open>a contact directory that answers the query for a first name from the table and
      every other query with no contact\<close>
  "first_names_only table call =
     (case call of
        Starts_with field v _ \<Rightarrow>
          Inr (Some (if field = ''info.name.first''
                     then (case map_of table v of None \<Rightarrow> [] | Some xs \<Rightarrow> xs) else []))
      | All_contacts _ \<Rightarrow> Inr (Some []))"

definition active_members :: "data_item list \<Rightarrow> items_api" where
  \<comment> \<open>a Members collection whose query answers \<open>its\<close>\<close>
  "active_members its call = Inr its"

definition no_members_module :: members_api where
  "no_members_module call = Inl ''Network Error''"

definition item_example :: "string \<Rightarrow> string \<Rightarrow> string \<Rightarrow> string \<Rightarrow> data_item" where
  "item_example uid firstName lastName dob =
     \<lparr> item_uid = Some uid,
       contactDetails = Some \<lparr> cd_firstName = Some firstName, cd_lastName = Some lastName,
                               cd_email = None, cd_phone = None \<rparr>,
       item_dateOfBirth = Some dob, item_status = Some ''ACTIVE'', item_createdDate = None,
       item_extendedFields = None \<rparr>"

section \<open>Properties of the string operations\<close>

lemma js_split_not_Nil: "js_split sep s \<noteq> []"
  by (induction s) (auto split: list.splits)

lemma js_split_no_sep: "sep \<notin> set a \<Longrightarrow> js_split sep a = [a]"
  by (induction a) auto

lemma js_split_append_sep:
  "sep \<notin> set a \<Longrightarrow> js_split sep (a @ sep # rest) = a # js_split sep rest"
  by (induction a) auto


section \<open>Name variants\<close>

lemmas normaliser_defs =
  toTitleCase_def firstNameVariations_def formattedDOB_def truthy_def or_empty_def
  toLowerCase_def toLowerCase_char_def toUpperCase_char_def capitalize_def
  nth_opt_def template_str_def

text \<open>
  C6. For the first name "JANE MARIE" and the date of birth "01-15-1990" the variants are
  "Jane Marie", "Jane", "Marie" (and "Jane" once more, as the first part of a
  multi-part name) and the date becomes "1990-01-15". For every first name, the variant
  list holds the whole title-cased name and each of its space-separated parts of more
  than one character.
\<close>

theorem variants_of_first_name:
  "firstNameVariations (toTitleCase (Some ''JANE MARIE''))
     = [''Jane Marie'', ''Jane'', ''Marie'', ''Jane'']
   \<and> formattedDOB (Some ''01-15-1990'') = ''1990-01-15''
   \<and> (\<forall>firstName. firstName \<noteq> [] \<longrightarrow>
        toTitleCase (Some firstName) \<in> set (firstNameVariations (toTitleCase (Some firstName)))
        \<and> (\<forall>part \<in> set (js_split (CHR '' '') (toTitleCase (Some firstName))).
              1 < length part \<longrightarrow>
              part \<in> set (firstNameVariations (toTitleCase (Some firstName)))))"
proof (intro conjI allI impI ballI)
  show "firstNameVariations (toTitleCase (Some ''JANE MARIE''))
          = [''Jane Marie'', ''Jane'', ''Marie'', ''Jane'']"
    by (simp add: normaliser_defs)
  show "formattedDOB (Some ''01-15-1990'') = ''1990-01-15''"
    by (simp add: normaliser_defs)
next
  fix firstName :: string
  show "toTitleCase (Some firstName) \<in> set (firstNameVariations (toTitleCase (Some firstName)))"
    by (simp add: firstNameVariations_def Let_def)
next
  fix firstName :: string and part
  assume "part \<in> set (js_split (CHR '' '') (toTitleCase (Some firstName)))"
    and "1 < length part"
  then show "part \<in> set (firstNameVariations (toTitleCase (Some firstName)))"
    by (simp add: firstNameVariations_def Let_def)
qed

theorem variants_of_first_name_witness:
  "''MARY ANN'' \<noteq> []
   \<and> toTitleCase (Some ''MARY ANN'') = ''Mary Ann''
   \<and> ''Ann'' \<in> set (js_split (CHR '' '') (toTitleCase (Some ''MARY ANN'')))
   \<and> ''Mary Ann'' \<in> set (firstNameVariations (toTitleCase (Some ''MARY ANN'')))
   \<and> ''Ann'' \<in> set (firstNameVariations (toTitleCase (Some ''MARY ANN'')))"
proof -
  have t: "toTitleCase (Some ''MARY ANN'') = ''Mary Ann''"
    by (simp add: normaliser_defs)
  have p: "''Ann'' \<in> set (js_split (CHR '' '') (toTitleCase (Some ''MARY ANN'')))"
    by (simp add: t)
  from variants_of_first_name
  have g: "''MARY ANN'' \<noteq> [] \<longrightarrow>
        toTitleCase (Some ''MARY ANN'') \<in> set (firstNameVariations (toTitleCase (Some ''MARY ANN'')))
        \<and> (\<forall>part \<in> set (js_split (CHR '' '') (toTitleCase (Some ''MARY ANN''))).
              1 < length part \<longrightarrow>
              part \<in> set (firstNameVariations (toTitleCase (Some ''MARY ANN''))))"
    by blast
  then have "''Ann'' \<in> set (firstNameVariations (toTitleCase (Some ''MARY ANN'')))"
    using p by auto
  moreover have "''Mary Ann'' \<in> set (firstNameVariations (toTitleCase (Some ''MARY ANN'')))"
    using g t by auto
  ultimately show ?thesis using t p by simp
qed


section \<open>Date of birth that is not MM-DD-YYYY\<close>

text \<open>
  \<open>searchMemberByNameOrDOB\<close> reorders a date of three dash-separated parts whose last
  part has four characters, and returns every other string as it is.
\<close>

lemma formattedDob_reorders:
  assumes "CHR ''-'' \<notin> set mm" and "CHR ''-'' \<notin> set dd" and "CHR ''-'' \<notin> set yyyy"
    and "length yyyy = 4"
  shows "formattedDob (mm @ ''-'' @ dd @ ''-'' @ yyyy) = yyyy @ ''-'' @ mm @ ''-'' @ dd"
  using assms by (simp add: formattedDob_def js_split_append_sep js_split_no_sep)

lemma formattedDob_passes_through:
  assumes "\<not> (length (js_split (CHR ''-'') dob) = 3 \<and> length (js_split (CHR ''-'') dob ! 2) = 4)"
  shows "formattedDob dob = dob"
  using assms by (auto simp: formattedDob_def Let_def)

lemma formattedDOB_reorders:
  assumes "CHR ''-'' \<notin> set mm" and "CHR ''-'' \<notin> set dd" and "CHR ''-'' \<notin> set yyyy"
    and "mm \<noteq> []"
  shows "formattedDOB (Some (mm @ ''-'' @ dd @ ''-'' @ yyyy)) = yyyy @ ''-'' @ mm @ ''-'' @ dd"
  using assms
  by (simp add: formattedDOB_def truthy_def or_empty_def js_split_append_sep js_split_no_sep
      nth_opt_def template_str_def)

text \<open>
  C7. The REST service's \<open>findMember\<close> does not hand a date of birth that is not in the
  MM-DD-YYYY shape through unchanged: "1990/01/15" has no dash, so the month is the
  whole string and day and year are \<open>undefined\<close>.
\<close>

theorem formattedDOB_not_passed_through:
  "formattedDOB (Some ''1990/01/15'') = ''undefined-1990/01/15-undefined''
   \<and> formattedDOB (Some ''1990-01-15'') = ''15-1990-01''"
  by (simp add: normaliser_defs)
section \<open>The latest scan\<close>

lemma insert_by_total:
  assumes "\<forall>y \<in> set ys. \<exists>v. comparefn x y = Inr v"
  shows "\<exists>zs. insert_by comparefn x ys = Inr zs \<and> set zs = insert x (set ys)
              \<and> length zs = Suc (length ys)"
  using assms
proof (induction ys)
  case Nil
  then show ?case by simp
next
  case (Cons y ys)
  from Cons.prems obtain v where v: "comparefn x y = Inr v" by auto
  from Cons obtain zs where zs: "insert_by comparefn x ys = Inr zs"
    "set zs = insert x (set ys)" "length zs = Suc (length ys)" by auto
  show ?case using v zs by auto
qed

lemma js_sort_total:
  assumes "\<forall>x \<in> set xs. \<forall>y \<in> set xs. \<exists>v. comparefn x y = Inr v"
  shows "\<exists>zs. js_sort comparefn xs = Inr zs \<and> set zs = set xs \<and> length zs = length xs"
  using assms
proof (induction xs)
  case Nil
  then show ?case by simp
next
  case (Cons x xs)
  then obtain ys where ys: "js_sort comparefn xs = Inr ys" "set ys = set xs"
    "length ys = length xs" by auto
  have "\<forall>y \<in> set ys. \<exists>v. comparefn x y = Inr v" using Cons.prems ys by simp
  from insert_by_total [of ys comparefn x, OF this] show ?case using ys by auto
qed

lemma insert_by_head:
  assumes "\<forall>y \<in> set ys. comparefn x y = Inr (Some (key y - key x))"
  shows "\<exists>zs. insert_by comparefn x ys = Inr zs \<and> zs \<noteq> []
              \<and> hd zs = (if ys = [] \<or> key (hd ys) \<le> key x then x else hd ys)"
  using assms
proof (induction ys)
  case Nil
  then show ?case by simp
next
  case (Cons y ys)
  then obtain zs where "insert_by comparefn x ys = Inr zs" by auto
  then show ?case using Cons.prems by (auto simp: sort_order_def)
qed

lemma js_sort_head:
  fixes key :: "'a \<Rightarrow> int"
  assumes "\<forall>x \<in> set xs. \<forall>y \<in> set xs. comparefn x y = Inr (Some (key y - key x))"
    and "xs \<noteq> []"
  shows "\<exists>zs before latest after. js_sort comparefn xs = Inr (latest # zs)
            \<and> xs = before @ latest # after
            \<and> (\<forall>r \<in> set before. key r < key latest)
            \<and> (\<forall>r \<in> set after. key r \<le> key latest)"
  using assms
proof (induction xs)
  case Nil
  then show ?case by simp
next
  case (Cons x xs)
  have tot: "\<forall>a \<in> set xs. \<forall>b \<in> set xs. \<exists>v. comparefn a b = Inr v"
    using Cons.prems by simp
  from js_sort_total [of xs comparefn, OF tot] obtain ys where ys: "js_sort comparefn xs = Inr ys"
    "set ys = set xs" "length ys = length xs" by blast
  have cmp: "\<forall>y \<in> set ys. comparefn x y = Inr (Some (key y - key x))"
    using Cons.prems ys by simp
  from insert_by_head [of ys comparefn x key, OF cmp] obtain zs where zs: "insert_by comparefn x ys = Inr zs"
    "zs \<noteq> []" "hd zs = (if ys = [] \<or> key (hd ys) \<le> key x then x else hd ys)" by blast
  show ?case
  proof (cases "xs = []")
    case True
    then have "ys = []" using ys by simp
    then have "js_sort comparefn (x # xs) = Inr [x]" using ys by simp
    then show ?thesis using True by force
  next
    case False
    from Cons.IH [OF _ False] Cons.prems obtain ws before latest after where
      ih: "js_sort comparefn xs = Inr (latest # ws)" "xs = before @ latest # after"
        "\<forall>r \<in> set before. key r < key latest" "\<forall>r \<in> set after. key r \<le> key latest"
      by auto
    have hdys: "ys = latest # ws" using ih ys by simp
    show ?thesis
    proof (cases "key latest \<le> key x")
      case True
      then have h: "hd zs = x" using zs hdys by simp
      obtain zs' where "zs = x # zs'" using zs h by (cases zs) auto
      then have "js_sort comparefn (x # xs) = Inr (x # zs')" using ys zs by simp
      moreover have "\<forall>r \<in> set xs. key r \<le> key x" using ih True by fastforce
      ultimately show ?thesis by (intro exI [of _ zs'] exI [of _ "[]"] exI [of _ x] exI [of _ xs]) simp
    next
      case False
      then have h: "hd zs = latest" using zs hdys by simp
      obtain zs' where "zs = latest # zs'" using zs h by (cases zs) auto
      then have "js_sort comparefn (x # xs) = Inr (latest # zs')" using ys zs by simp
      moreover have "x # xs = (x # before) @ latest # after" using ih by simp
      moreover have "\<forall>r \<in> set (x # before). key r < key latest" using ih False by simp
      ultimately show ?thesis using ih(4) by blast
    qed
  qed
qed

lemma compare_created_of_times:
  assumes "created_time Date a = Some ta" and "created_time Date b = Some tb"
  shows "compare_created Date a b = Inr (Some (tb - ta))"
    and "compare_created_safely Date a b = Inr (Some (tb - ta))"
  using assms
  by (auto simp: created_time_def compare_created_def compare_created_safely_def date_minus_def
      truthy_def or_empty_def Let_def date_part_def split: option.splits if_splits)

lemma latest_by_first_maximum:
  fixes time :: "row \<Rightarrow> int"
  assumes "records \<noteq> []"
    and "\<forall>a \<in> set records. \<forall>b \<in> set records. comparefn a b = Inr (Some (time b - time a))"
  shows "\<exists>before latest after. records = before @ latest # after
           \<and> latest_by comparefn (Parsed records) = Inr latest
           \<and> (\<forall>r \<in> set before. time r < time latest)
           \<and> (\<forall>r \<in> set after. time r \<le> time latest)"
proof -
  from js_sort_head [of records comparefn time, OF assms(2) assms(1)]
  obtain zs before latest after where
    "js_sort comparefn records = Inr (latest # zs)" "records = before @ latest # after"
    "\<forall>r \<in> set before. time r < time latest" "\<forall>r \<in> set after. time r \<le> time latest"
    by blast
  then show ?thesis using assms(1) by (auto simp: latest_by_def)
qed

lemma getLatestScan_returns_a_row:
  assumes "records \<noteq> []"
  shows "\<exists>r \<in> set records. getLatestScan Date (Parsed records) = Inr (to_ScanRecord r None)"
proof -
  have "\<forall>a \<in> set records. \<forall>b \<in> set records. \<exists>v. compare_created_safely Date a b = Inr v"
    by (simp add: compare_created_safely_def Let_def)
  from js_sort_total [of records "compare_created_safely Date", OF this]
  obtain zs where zs: "js_sort (compare_created_safely Date) records = Inr zs"
    "set zs = set records" "length zs = length records" by blast
  then obtain r rs where "zs = r # rs" using assms by (cases zs) auto
  then show ?thesis using zs assms by (auto simp: getLatestScan_def latest_by_def)
qed

text \<open>
  C3, as amended. When the capture timestamp of every row parses, \<open>getLatestScan\<close> (with
  the guarded comparator or without it) returns the row with the greatest timestamp, and
  of several such rows the one that comes first in the file: every row before it is
  strictly older, every row after it is not newer.
\<close>

theorem latest_scan_is_first_maximum:
  fixes time :: "row \<Rightarrow> int"
  assumes "records \<noteq> []"
    and "\<forall>r \<in> set records. created_time Date r = Some (time r)"
  shows "\<exists>before latest after. records = before @ latest # after
           \<and> getLatestScan Date (Parsed records) = Inr (to_ScanRecord latest None)
           \<and> getLatestScan_unguarded Date (Parsed records) = Inr (to_ScanRecord latest None)
           \<and> (\<forall>r \<in> set before. time r < time latest)
           \<and> (\<forall>r \<in> set after. time r \<le> time latest)"
proof -
  have safe: "\<forall>a \<in> set records. \<forall>b \<in> set records.
      compare_created_safely Date a b = Inr (Some (time b - time a))"
    using assms(2) compare_created_of_times(2) by blast
  have plain: "\<forall>a \<in> set records. \<forall>b \<in> set records.
      compare_created Date a b = Inr (Some (time b - time a))"
    using assms(2) compare_created_of_times(1) by blast
  from latest_by_first_maximum [OF assms(1) safe]
  obtain before latest after where l: "records = before @ latest # after"
    "latest_by (compare_created_safely Date) (Parsed records) = Inr latest"
    "\<forall>r \<in> set before. time r < time latest" "\<forall>r \<in> set after. time r \<le> time latest"
    by blast
  from latest_by_first_maximum [OF assms(1) plain]
  obtain before' latest' after' where l': "records = before' @ latest' # after'"
    "latest_by (compare_created Date) (Parsed records) = Inr latest'"
    "\<forall>r \<in> set before'. time r < time latest'" "\<forall>r \<in> set after'. time r \<le> time latest'"
    by blast
  have "before = before' \<and> latest = latest'"
  proof -
    have eq: "before @ latest # after = before' @ latest' # after'" using l(1) l'(1) by simp
    have "before = before'"
    proof (rule ccontr)
      assume ne: "before \<noteq> before'"
      from eq consider us where "us \<noteq> []" "before @ us = before'" "latest # after = us @ latest' # after'"
        | us where "us \<noteq> []" "before = before' @ us" "us @ latest # after = latest' # after'"
        using ne by (auto simp: append_eq_append_conv2)
      then show False
      proof cases
        case 1
        then obtain vs where "us = latest # vs" by (cases us) auto
        then have "latest \<in> set before'" "latest' \<in> set after" using 1 by auto
        then show False using l(4) l'(3) by fastforce
      next
        case 2
        then obtain vs where "us = latest' # vs" by (cases us) auto
        then have "latest' \<in> set before" "latest \<in> set after'" using 2 by auto
        then show False using l(3) l'(4) by fastforce
      qed
    qed
    then show ?thesis using eq by simp
  qed
  then show ?thesis
    using l l' by (auto simp: getLatestScan_def getLatestScan_unguarded_def)
qed

theorem latest_scan_is_first_maximum_witness:
  "getLatestScan example_Date
     (Parsed [scan_row ''JOHN'' (Some ''01/01/2020 10:00''),
              scan_row ''MARY'' (Some ''06/01/2024 10:00''),
              scan_row ''ANNA'' (Some ''06/01/2024 18:30'')])
   = Inr (to_ScanRecord (scan_row ''MARY'' (Some ''06/01/2024 10:00'')) None)"
proof -
  let ?j = "scan_row ''JOHN'' (Some ''01/01/2020 10:00'')"
  let ?m = "scan_row ''MARY'' (Some ''06/01/2024 10:00'')"
  let ?a = "scan_row ''ANNA'' (Some ''06/01/2024 18:30'')"
  let ?time = "\<lambda>r. case created_time example_Date r of Some t \<Rightarrow> t | None \<Rightarrow> 0"
  have t: "created_time example_Date ?j = Some 1577836800000"
    "created_time example_Date ?m = Some 1717200000000"
    "created_time example_Date ?a = Some 1717200000000"
    by (simp_all add: created_time_def scan_row_def date_part_def replace_slashes_def
        example_Date_def)
  have h: "\<forall>r \<in> set [?j, ?m, ?a]. created_time example_Date r = Some (?time r)"
    using t by simp
  from latest_scan_is_first_maximum [of "[?j, ?m, ?a]" example_Date ?time, OF _ h]
  obtain before latest after where l: "[?j, ?m, ?a] = before @ latest # after"
    "getLatestScan example_Date (Parsed [?j, ?m, ?a]) = Inr (to_ScanRecord latest None)"
    "\<forall>r \<in> set before. ?time r < ?time latest" "\<forall>r \<in> set after. ?time r \<le> ?time latest"
    by auto
  have ne: "?j \<noteq> ?m" "?m \<noteq> ?a" "?j \<noteq> ?a" by (simp_all add: scan_row_def)
  from l(1) consider "before = [] \<and> latest = ?j \<and> after = [?m, ?a]"
    | "before = [?j] \<and> latest = ?m \<and> after = [?a]"
    | "before = [?j, ?m] \<and> latest = ?a \<and> after = []"
    by (auto simp: Cons_eq_append_conv append_eq_Cons_conv)
  then have "latest = ?m"
  proof cases
    case 1
    then show ?thesis using l(4) t by simp
  next
    case 2
    then show ?thesis by simp
  next
    case 3
    then show ?thesis using l(3) t by simp
  qed
  then show ?thesis using l(2) by simp
qed

text \<open>
  C3 does not hold without that condition. When a timestamp does not parse, the
  comparator result is \<open>NaN\<close> (or \<open>0\<close>) on both sides of such a row: the three rows
  stay in their order and the first one is returned although the third one is newer.
\<close>

theorem latest_scan_not_maximum_counterexample:
  "getLatestScan example_Date
     (Parsed [scan_row ''JOHN'' (Some ''01/01/2020 10:00''),
              scan_row ''MARY'' (Some ''unknown''),
              scan_row ''ANNA'' (Some ''06/01/2024 10:00'')])
   = Inr (to_ScanRecord (scan_row ''JOHN'' (Some ''01/01/2020 10:00'')) None)
   \<and> created_time example_Date (scan_row ''JOHN'' (Some ''01/01/2020 10:00'')) = Some 1577836800000
   \<and> created_time example_Date (scan_row ''ANNA'' (Some ''06/01/2024 10:00'')) = Some 1717200000000"
  by (simp add: getLatestScan_def latest_by_def compare_created_safely_def created_time_def
      scan_row_def date_part_def replace_slashes_def example_Date_def truthy_def or_empty_def
      date_minus_def sort_order_def Let_def)

text \<open>
  C8. The versions of \<open>getLatestScan\<close> whose comparator calls \<open>a.CREATED.split\<close> without
  a guard raise inside the sort when the export has no CREATED column and more than one
  row: the TypeError reaches the outer handler and the operation returns its message
  instead of a ScanRecord.
\<close>

theorem unguarded_sort_raises_without_CREATED:
  "getLatestScan_fingerprint Date getFingerprintData
     (Parsed [scan_row ''JOHN'' None, scan_row ''MARY'' None]) = Inl undefined_split
   \<and> getLatestScan_unguarded Date
     (Parsed [scan_row ''JOHN'' None, scan_row ''MARY'' None]) = Inl undefined_split"
  by (simp add: getLatestScan_fingerprint_def getLatestScan_unguarded_def latest_by_def
      compare_created_def scan_row_def)

section \<open>The fallback across the REST directories\<close>

lemma found_members_eq:
  "(case response of Inl _ \<Rightarrow> Nothing | Inr d \<Rightarrow> found_members d)
     = (if members_in response = [] then Nothing
        else From_members (map ensure_id (members_in response)))"
  by (auto simp: found_members_def members_in_def split: sum.splits option.splits)

lemma found_contacts_eq:
  "(case response of Inl _ \<Rightarrow> Nothing | Inr d \<Rightarrow> found_contacts d)
     = (if contacts_in response = [] then Nothing else From_contacts (contacts_in response))"
  by (auto simp: found_contacts_def contacts_in_def split: sum.splits option.splits)

lemma findMember_from_members:
  assumes "truthy WIX_API_KEY"
    and "\<not> (blank firstName \<and> blank lastName \<and> blank dateOfBirth)"
    and "members_in (api (members_request firstName lastName dateOfBirth)) \<noteq> []"
  shows "findMember WIX_API_KEY api firstName lastName dateOfBirth
       = (Found (map member_profile
                  (map ensure_id (members_in (api (members_request firstName lastName dateOfBirth))))),
          [members_request firstName lastName dateOfBirth])"
  using assms by (simp add: findMember_def found_members_eq Let_def)

lemma findMember_from_contacts:
  assumes "truthy WIX_API_KEY"
    and "\<not> (blank firstName \<and> blank lastName \<and> blank dateOfBirth)"
    and "members_in (api (members_request firstName lastName dateOfBirth)) = []"
    and "contacts_in (api (contacts_request firstName lastName dateOfBirth)) \<noteq> []"
  shows "findMember WIX_API_KEY api firstName lastName dateOfBirth
       = (Found (map contact_profile
                  (contacts_in (api (contacts_request firstName lastName dateOfBirth)))),
          [members_request firstName lastName dateOfBirth,
           contacts_request firstName lastName dateOfBirth])"
proof -
  from assms(4) obtain d where d: "api (contacts_request firstName lastName dateOfBirth) = Inr d"
    by (auto simp: contacts_in_def split: sum.splits)
  have "found_contacts d
          = From_contacts (contacts_in (api (contacts_request firstName lastName dateOfBirth)))"
    using assms(4) d by (auto simp: found_contacts_def contacts_in_def split: option.splits)
  then show ?thesis
    using assms(1-3) d by (simp add: findMember_def found_members_eq Let_def)
qed

lemma findMember_after_no_members:
  assumes "truthy WIX_API_KEY"
    and "\<not> (blank firstName \<and> blank lastName \<and> blank dateOfBirth)"
    and "members_in (api (members_request firstName lastName dateOfBirth)) = []"
  shows "\<exists>more. snd (findMember WIX_API_KEY api firstName lastName dateOfBirth)
           = members_request firstName lastName dateOfBirth
             # contacts_request firstName lastName dateOfBirth # more"
    and "\<forall>ps. fst (findMember WIX_API_KEY api firstName lastName dateOfBirth) = Found ps \<longrightarrow>
           (\<forall>p \<in> set ps. res_source p = ''contacts'')"
  using assms
  by (auto simp: findMember_def found_members_eq found_contacts_def contact_profile_def Let_def
      split: sum.splits option.splits if_splits)

lemma direct_filters_empty:
  "direct_members_filters name dob = [] \<longleftrightarrow> \<not> truthy name \<and> \<not> truthy dob"
  by (simp add: direct_members_filters_def part_filters_def dob_filters_def)

lemma findMember_nothing:
  assumes "truthy WIX_API_KEY"
    and "\<not> (blank firstName \<and> blank lastName \<and> blank dateOfBirth)"
    and "\<forall>call. members_in (api call) = [] \<and> contacts_in (api call) = []"
  shows "fst (findMember WIX_API_KEY api firstName lastName dateOfBirth)
       = Failed ''No members found matching the search criteria''"
proof -
  have c: "\<And>call. (case api call of Inl _ \<Rightarrow> Nothing | Inr d \<Rightarrow> found_contacts d) = Nothing"
    using assms(3) by (simp add: found_contacts_eq)
  have c': "\<And>call d. api call = Inr d \<Longrightarrow> found_contacts d = Nothing"
    using c by (metis sum.simps(6))
  show ?thesis
    using assms c c'
    by (auto simp: findMember_def found_members_eq Let_def split: sum.splits)
qed

lemma search_from_members:
  assumes "initialized" and "direct_members_filters name dob \<noteq> []"
    and "members_in (api (Members_query (direct_members_filters name dob))) \<noteq> []"
  shows "searchMemberByNameOrDOB initialized api name dob
       = (Members_result (map ensure_id_direct
                           (members_in (api (Members_query (direct_members_filters name dob))))),
          [Members_query (direct_members_filters name dob)])"
  using assms
  by (auto simp: searchMemberByNameOrDOB_def members_in_def Let_def
      split: sum.splits option.splits list.splits)

lemma search_from_contacts:
  assumes "initialized" and "direct_members_filters name dob \<noteq> []"
    and "members_in (api (Members_query (direct_members_filters name dob))) = []"
  shows "searchMemberByNameOrDOB initialized api name dob
       = (Contacts_result (contacts_in (api (Contacts_query (direct_contacts_filters name dob)))),
          [Members_query (direct_members_filters name dob),
           Contacts_query (direct_contacts_filters name dob)])"
  using assms
  by (auto simp: searchMemberByNameOrDOB_def members_in_def contacts_in_def Let_def
      split: sum.splits option.splits list.splits)

lemmas example_defs =
  truthy_def blank_def or_empty_def js_trim_def is_space_def members_in_def contacts_in_def
  answers_def unreachable_def direct_members_filters_def part_filters_def

text \<open>
  C1. \<open>findMember\<close> and \<open>searchMemberByNameOrDOB\<close> ask the member directory first.
  When it yields a member, that is the only request sent, the result holds exactly
  those members and every one carries the tag "members". When it yields none, the
  contact directory is asked next and every candidate then returned carries the tag
  "contacts": \<open>searchMemberByNameOrDOB\<close> returns what the contact directory yields, and
  so does \<open>findMember\<close> when that is at least one contact. No result mixes the two
  directories.
\<close>

theorem first_source_with_candidates_wins:
  assumes "truthy WIX_API_KEY"
    and "\<not> (blank firstName \<and> blank lastName \<and> blank dateOfBirth)"
    and "initialized"
    and "truthy name \<or> truthy dob"
  shows
    "(members_in (api (members_request firstName lastName dateOfBirth)) \<noteq> [] \<longrightarrow>
        findMember WIX_API_KEY api firstName lastName dateOfBirth
          = (Found (map member_profile (map ensure_id
                      (members_in (api (members_request firstName lastName dateOfBirth))))),
             [members_request firstName lastName dateOfBirth])
        \<and> (\<forall>p \<in> set (map member_profile (map ensure_id
                      (members_in (api (members_request firstName lastName dateOfBirth))))).
              res_source p = ''members''))
     \<and> (members_in (api (members_request firstName lastName dateOfBirth)) = [] \<longrightarrow>
        (\<exists>more. snd (findMember WIX_API_KEY api firstName lastName dateOfBirth)
           = members_request firstName lastName dateOfBirth
             # contacts_request firstName lastName dateOfBirth # more)
        \<and> (\<forall>ps. fst (findMember WIX_API_KEY api firstName lastName dateOfBirth) = Found ps \<longrightarrow>
              (\<forall>p \<in> set ps. res_source p = ''contacts'')))
     \<and> (members_in (api (members_request firstName lastName dateOfBirth)) = []
        \<and> contacts_in (api (contacts_request firstName lastName dateOfBirth)) \<noteq> [] \<longrightarrow>
        findMember WIX_API_KEY api firstName lastName dateOfBirth
          = (Found (map contact_profile
                      (contacts_in (api (contacts_request firstName lastName dateOfBirth)))),
             [members_request firstName lastName dateOfBirth,
              contacts_request firstName lastName dateOfBirth]))
     \<and> (members_in (api (Members_query (direct_members_filters name dob))) \<noteq> [] \<longrightarrow>
        searchMemberByNameOrDOB initialized api name dob
          = (Members_result (map ensure_id_direct
                      (members_in (api (Members_query (direct_members_filters name dob))))),
             [Members_query (direct_members_filters name dob)])
        \<and> search_source (fst (searchMemberByNameOrDOB initialized api name dob)) = Some ''members'')
     \<and> (members_in (api (Members_query (direct_members_filters name dob))) = [] \<longrightarrow>
        searchMemberByNameOrDOB initialized api name dob
          = (Contacts_result
               (contacts_in (api (Contacts_query (direct_contacts_filters name dob)))),
             [Members_query (direct_members_filters name dob),
              Contacts_query (direct_contacts_filters name dob)])
        \<and> search_source (fst (searchMemberByNameOrDOB initialized api name dob)) = Some ''contacts'')"
proof (intro conjI impI)
  assume m: "members_in (api (members_request firstName lastName dateOfBirth)) \<noteq> []"
  show "findMember WIX_API_KEY api firstName lastName dateOfBirth
          = (Found (map member_profile (map ensure_id
                      (members_in (api (members_request firstName lastName dateOfBirth))))),
             [members_request firstName lastName dateOfBirth])"
    using assms(1,2) m by (rule findMember_from_members)
  show "\<forall>p \<in> set (map member_profile (map ensure_id
                      (members_in (api (members_request firstName lastName dateOfBirth))))).
              res_source p = ''members''"
    by (auto simp: member_profile_def Let_def split: prod.splits)
next
  assume m: "members_in (api (members_request firstName lastName dateOfBirth)) = []"
  show "\<exists>more. snd (findMember WIX_API_KEY api firstName lastName dateOfBirth)
           = members_request firstName lastName dateOfBirth
             # contacts_request firstName lastName dateOfBirth # more"
    using assms(1,2) m by (rule findMember_after_no_members(1))
  show "\<forall>ps. fst (findMember WIX_API_KEY api firstName lastName dateOfBirth) = Found ps \<longrightarrow>
              (\<forall>p \<in> set ps. res_source p = ''contacts'')"
    using assms(1,2) m by (rule findMember_after_no_members(2))
next
  assume c: "members_in (api (members_request firstName lastName dateOfBirth)) = []
        \<and> contacts_in (api (contacts_request firstName lastName dateOfBirth)) \<noteq> []"
  show "findMember WIX_API_KEY api firstName lastName dateOfBirth
          = (Found (map contact_profile
                      (contacts_in (api (contacts_request firstName lastName dateOfBirth)))),
             [members_request firstName lastName dateOfBirth,
              contacts_request firstName lastName dateOfBirth])"
    using assms(1,2) c by (intro findMember_from_contacts) simp_all
next
  have f: "direct_members_filters name dob \<noteq> []"
    using assms(4) by (simp add: direct_filters_empty)
  {
    assume m: "members_in (api (Members_query (direct_members_filters name dob))) \<noteq> []"
    show s: "searchMemberByNameOrDOB initialized api name dob
          = (Members_result (map ensure_id_direct
                      (members_in (api (Members_query (direct_members_filters name dob))))),
             [Members_query (direct_members_filters name dob)])"
      using assms(3) f m by (rule search_from_members)
    show "search_source (fst (searchMemberByNameOrDOB initialized api name dob)) = Some ''members''"
      by (simp add: s search_source_def)
  }
  {
    assume m: "members_in (api (Members_query (direct_members_filters name dob))) = []"
    show s: "searchMemberByNameOrDOB initialized api name dob
          = (Contacts_result
               (contacts_in (api (Contacts_query (direct_contacts_filters name dob)))),
             [Members_query (direct_members_filters name dob),
              Contacts_query (direct_contacts_filters name dob)])"
      using assms(3) f m by (rule search_from_contacts)
    show "search_source (fst (searchMemberByNameOrDOB initialized api name dob)) = Some ''contacts''"
      by (simp add: s search_source_def)
  }
qed

theorem first_source_with_candidates_wins_witness:
  "findMember (Some ''key'')
     (answers [example_member ''m1'' ''Jane Doe''] [example_contact ''c1'' ''Jane'' ''Doe''])
     (Some ''JANE'') (Some ''DOE'') (Some ''01-15-1990'')
     = (Found [member_profile (example_member ''m1'' ''Jane Doe'')],
        [members_request (Some ''JANE'') (Some ''DOE'') (Some ''01-15-1990'')])
   \<and> res_source (member_profile (example_member ''m1'' ''Jane Doe'')) = ''members''
   \<and> fst (findMember (Some ''key'') (answers [] [example_contact ''c1'' ''Jane'' ''Doe''])
          (Some ''JANE'') (Some ''DOE'') (Some ''01-15-1990''))
     = Found [contact_profile (example_contact ''c1'' ''Jane'' ''Doe'')]
   \<and> length (snd (findMember (Some ''key'') (answers [] [example_contact ''c1'' ''Jane'' ''Doe''])
          (Some ''JANE'') (Some ''DOE'') (Some ''01-15-1990''))) = 2
   \<and> res_source (contact_profile (example_contact ''c1'' ''Jane'' ''Doe'')) = ''contacts''
   \<and> fst (searchMemberByNameOrDOB True (answers [] [example_contact ''c1'' ''Jane'' ''Doe''])
          (Some ''Jane Doe'') (Some ''01-15-1990''))
     = Contacts_result [example_contact ''c1'' ''Jane'' ''Doe'']"
proof -
  let ?api = "answers [] [example_contact ''c1'' ''Jane'' ''Doe'']"
  let ?api' = "answers [example_member ''m1'' ''Jane Doe''] [example_contact ''c1'' ''Jane'' ''Doe'']"
  have k: "truthy (Some ''key'')" by (simp add: truthy_def)
  have q: "\<not> (blank (Some ''JANE'') \<and> blank (Some ''DOE'') \<and> blank (Some ''01-15-1990''))"
    by (simp add: example_defs)
  have f: "truthy (Some ''Jane Doe'') \<or> truthy (Some ''01-15-1990'')"
    by (simp add: truthy_def)
  have e: "ensure_id (example_member ''m1'' ''Jane Doe'') = example_member ''m1'' ''Jane Doe''"
    by (simp add: ensure_id_def example_member_def truthy_def)
  have m: "members_in (?api (members_request (Some ''JANE'') (Some ''DOE'') (Some ''01-15-1990''))) = []"
    by (simp add: example_defs members_request_def)
  have m1: "members_in (?api' (members_request (Some ''JANE'') (Some ''DOE'') (Some ''01-15-1990'')))
             = [example_member ''m1'' ''Jane Doe'']"
    by (simp add: example_defs members_request_def)
  have c: "contacts_in (?api (contacts_request (Some ''JANE'') (Some ''DOE'') (Some ''01-15-1990'')))
             = [example_contact ''c1'' ''Jane'' ''Doe'']"
    by (simp add: example_defs contacts_request_def)
  have m': "members_in (?api (Members_query
              (direct_members_filters (Some ''Jane Doe'') (Some ''01-15-1990'')))) = []"
    by (simp add: members_in_def answers_def)
  have c': "contacts_in (?api (Contacts_query
              (direct_contacts_filters (Some ''Jane Doe'') (Some ''01-15-1990''))))
             = [example_contact ''c1'' ''Jane'' ''Doe'']"
    by (simp add: contacts_in_def answers_def)
  from first_source_with_candidates_wins [of "Some ''key''" "Some ''JANE''" "Some ''DOE''"
      "Some ''01-15-1990''" True "Some ''Jane Doe''" "Some ''01-15-1990''" ?api', OF k q _ f]
  have first: "findMember (Some ''key'') ?api' (Some ''JANE'') (Some ''DOE'') (Some ''01-15-1990'')
     = (Found [member_profile (example_member ''m1'' ''Jane Doe'')],
        [members_request (Some ''JANE'') (Some ''DOE'') (Some ''01-15-1990'')])"
    using m1 e by simp
  have t: "res_source (member_profile (example_member ''m1'' ''Jane Doe'')) = ''members''"
    "res_source (contact_profile (example_contact ''c1'' ''Jane'' ''Doe'')) = ''contacts''"
    by (simp_all add: contact_profile_def member_profile_def Let_def split: prod.splits)
  from first_source_with_candidates_wins [of "Some ''key''" "Some ''JANE''" "Some ''DOE''"
      "Some ''01-15-1990''" True "Some ''Jane Doe''" "Some ''01-15-1990''" ?api, OF k q _ f]
  show ?thesis using first m c m' c' t by simp
qed

text \<open>
  C2, as amended. For a valid query, when every request raises or yields nothing,
  \<open>findMember\<close> reports a failure with the message "No members found matching the search
  criteria", and \<open>searchMemberByNameOrDOB\<close> reports a success with the tag "contacts" and
  no candidates; neither tells a request that raised from one that found nothing.
\<close>

theorem nothing_found_anywhere:
  assumes "truthy WIX_API_KEY"
    and "\<not> (blank firstName \<and> blank lastName \<and> blank dateOfBirth)"
    and "initialized"
    and "truthy name \<or> truthy dob"
    and "\<forall>call. members_in (api call) = [] \<and> contacts_in (api call) = []"
  shows "fst (findMember WIX_API_KEY api firstName lastName dateOfBirth)
           = Failed ''No members found matching the search criteria''
         \<and> fst (searchMemberByNameOrDOB initialized api name dob) = Contacts_result []
         \<and> search_success (fst (searchMemberByNameOrDOB initialized api name dob))
         \<and> search_source (fst (searchMemberByNameOrDOB initialized api name dob)) = Some ''contacts''"
proof -
  have "fst (findMember WIX_API_KEY api firstName lastName dateOfBirth)
          = Failed ''No members found matching the search criteria''"
    using assms(1,2,5) by (rule findMember_nothing)
  moreover have "searchMemberByNameOrDOB initialized api name dob
       = (Contacts_result (contacts_in (api (Contacts_query (direct_contacts_filters name dob)))),
          [Members_query (direct_members_filters name dob),
           Contacts_query (direct_contacts_filters name dob)])"
    using assms(3,4,5) by (intro search_from_contacts) (simp_all add: direct_filters_empty)
  ultimately show ?thesis using assms(5) by (simp add: search_success_def search_source_def)
qed

theorem nothing_found_anywhere_witness:
  "fst (findMember (Some ''key'') unreachable (Some ''JANE'') (Some ''DOE'') (Some ''01-15-1990''))
     = Failed ''No members found matching the search criteria''
   \<and> fst (searchMemberByNameOrDOB True unreachable (Some ''Jane Doe'') (Some ''01-15-1990''))
     = Contacts_result []"
proof -
  have k: "truthy (Some ''key'')" by (simp add: truthy_def)
  have q: "\<not> (blank (Some ''JANE'') \<and> blank (Some ''DOE'') \<and> blank (Some ''01-15-1990''))"
    by (simp add: example_defs)
  have f: "truthy (Some ''Jane Doe'') \<or> truthy (Some ''01-15-1990'')"
    by (simp add: truthy_def)
  have n: "\<forall>call. members_in (unreachable call) = [] \<and> contacts_in (unreachable call) = []"
    by (simp add: example_defs)
  from nothing_found_anywhere [OF k q _ f n, of True] show ?thesis by simp
qed

text \<open>
  C2 in its original form does not hold: with both directories answering an empty list,
  \<open>findMember\<close> returns a failure, not a success with an empty list; and when every
  request raises, \<open>searchMemberByNameOrDOB\<close> still reports a success.
\<close>

theorem no_match_is_a_failure_counterexample:
  "fst (findMember (Some ''key'') (answers [] []) (Some ''JANE'') (Some ''DOE'') (Some ''01-15-1990''))
     = Failed ''No members found matching the search criteria''
   \<and> search_success
       (fst (searchMemberByNameOrDOB True unreachable (Some ''Jane Doe'') (Some ''01-15-1990'')))"
proof -
  have k: "truthy (Some ''key'')" by (simp add: truthy_def)
  have q: "\<not> (blank (Some ''JANE'') \<and> blank (Some ''DOE'') \<and> blank (Some ''01-15-1990''))"
    by (simp add: example_defs)
  have f: "direct_members_filters (Some ''Jane Doe'') (Some ''01-15-1990'') \<noteq> []"
    by (simp add: example_defs)
  have n: "\<forall>call. members_in (answers [] [] call) = [] \<and> contacts_in (answers [] [] call) = []"
    by (simp add: example_defs split: rest_call.splits)
  have u: "members_in (unreachable (Members_query
             (direct_members_filters (Some ''Jane Doe'') (Some ''01-15-1990'')))) = []"
    by (simp add: example_defs)
  have "fst (findMember (Some ''key'') (answers [] []) (Some ''JANE'') (Some ''DOE'')
               (Some ''01-15-1990''))
          = Failed ''No members found matching the search criteria''"
    using k q n by (rule findMember_nothing)
  moreover have "searchMemberByNameOrDOB True unreachable (Some ''Jane Doe'') (Some ''01-15-1990'')
       = (Contacts_result (contacts_in (unreachable (Contacts_query
             (direct_contacts_filters (Some ''Jane Doe'') (Some ''01-15-1990''))))),
          [Members_query (direct_members_filters (Some ''Jane Doe'') (Some ''01-15-1990'')),
           Contacts_query (direct_contacts_filters (Some ''Jane Doe'') (Some ''01-15-1990''))])"
    using f u by (intro search_from_contacts) simp_all
  ultimately show ?thesis by (simp add: search_success_def)
qed

section \<open>Deduplication of contacts\<close>




lemma map_set_keys:
  "map fst (map_set k v m) = (if k \<in> fst ` set m then map fst m else map fst m @ [k])"
proof (induction m)
  case Nil
  then show ?case by simp
next
  case (Cons p m)
  obtain k' v' where p: "p = (k', v')" by (cases p)
  show ?case
  proof (cases "k' = k")
    case True
    then show ?thesis using p by simp
  next
    case False
    then have "k \<in> fst ` set (p # m) \<longleftrightarrow> k \<in> fst ` set m" using p by auto
    then show ?thesis using Cons.IH False p by simp
  qed
qed

lemma map_set_distinct: "distinct (map fst m) \<Longrightarrow> distinct (map fst (map_set k v m))"
  by (simp add: map_set_keys)

lemma map_set_entries:
  "distinct (map fst m) \<Longrightarrow> set (map_set k v m) = insert (k, v) {p \<in> set m. fst p \<noteq> k}"
proof (induction m)
  case Nil
  then show ?case by simp
next
  case (Cons p m)
  obtain k' v' where p: "p = (k', v')" by (cases p)
  show ?case
  proof (cases "k' = k")
    case True
    then have "k \<notin> fst ` set m" using Cons.prems p by simp
    then have "{q \<in> set (p # m). fst q \<noteq> k} = set m" using True p by force
    then show ?thesis using True p by simp
  next
    case False
    have "distinct (map fst m)" using Cons.prems by simp
    then have "set (map_set k v m) = insert (k, v) {q \<in> set m. fst q \<noteq> k}"
      by (rule Cons.IH)
    then show ?thesis using False p by auto
  qed
qed

lemma map_set_length: "length (map_set k v m) \<le> Suc (length m)"
  by (induction m) auto

lemma uniqueContacts_snoc:
  "uniqueContacts (results @ [x]) = set_contact (uniqueContacts results) x"
  by (simp add: uniqueContacts_def)

lemma uniqueContacts_distinct: "distinct (map fst (uniqueContacts results))"
proof (induction results rule: rev_induct)
  case Nil
  then show ?case by (simp add: uniqueContacts_def)
next
  case (snoc x xs)
  then show ?case
    by (auto simp: uniqueContacts_snoc set_contact_def map_set_distinct split: option.splits)
qed

lemma uniqueContacts_entries:
  "(k, c) \<in> set (uniqueContacts results) \<Longrightarrow>
     k \<noteq> [] \<and> crm_uid c = Some k \<and> last_with_id results k = Some (Some c)"
proof (induction results arbitrary: k c rule: rev_induct)
  case Nil
  then show ?case by (simp add: uniqueContacts_def)
next
  case (snoc x xs)
  show ?case
  proof (cases x)
    case None
    then have "(k, c) \<in> set (uniqueContacts xs)"
      using snoc.prems by (simp add: uniqueContacts_snoc set_contact_def)
    then have "k \<noteq> []" "crm_uid c = Some k" "last_with_id xs k = Some (Some c)"
      using snoc.IH [of k c] by simp_all
    then show ?thesis using None by (simp add: last_with_id_def)
  next
    case (Some c')
    show ?thesis
    proof (cases "truthy (crm_uid c')")
      case False
      then have "(k, c) \<in> set (uniqueContacts xs)"
        using snoc.prems Some by (simp add: uniqueContacts_snoc set_contact_def)
      then have ih: "k \<noteq> []" "crm_uid c = Some k" "last_with_id xs k = Some (Some c)"
        using snoc.IH [of k c] by simp_all
      then have "crm_uid c' \<noteq> Some k" using False by (auto simp: truthy_def)
      then show ?thesis using ih Some by (simp add: last_with_id_def)
    next
      case True
      then obtain k' where k': "crm_uid c' = Some k'" "k' \<noteq> []"
        by (auto simp: truthy_def split: option.splits)
      have "uniqueContacts (xs @ [x]) = map_set k' c' (uniqueContacts xs)"
        using Some True k' by (simp add: uniqueContacts_snoc set_contact_def or_empty_def)
      then have "(k, c) = (k', c') \<or> ((k, c) \<in> set (uniqueContacts xs) \<and> k \<noteq> k')"
        using snoc.prems map_set_entries [OF uniqueContacts_distinct, of k' c' xs] by auto
      then show ?thesis
      proof
        assume "(k, c) = (k', c')"
        then show ?thesis using k' Some by (simp add: last_with_id_def)
      next
        assume old: "(k, c) \<in> set (uniqueContacts xs) \<and> k \<noteq> k'"
        then have ih: "k \<noteq> []" "crm_uid c = Some k" "last_with_id xs k = Some (Some c)"
          using snoc.IH [of k c] by simp_all
        have "crm_uid c' \<noteq> Some k" using old k' by auto
        then show ?thesis using ih Some by (simp add: last_with_id_def)
      qed
    qed
  qed
qed

lemma uniqueContacts_keys:
  "fst ` set (uniqueContacts results)
     = {k. k \<noteq> [] \<and> (\<exists>c. Some c \<in> set results \<and> crm_uid c = Some k)}"
proof (induction results rule: rev_induct)
  case Nil
  then show ?case by (simp add: uniqueContacts_def)
next
  case (snoc x xs)
  let ?K = "\<lambda>ys. {k. k \<noteq> [] \<and> (\<exists>c. Some c \<in> set ys \<and> crm_uid c = Some k)}"
  show ?case
  proof (cases x)
    case None
    then have "uniqueContacts (xs @ [x]) = uniqueContacts xs"
      by (simp add: uniqueContacts_snoc set_contact_def)
    moreover have "?K (xs @ [x]) = ?K xs" using None by auto
    ultimately show ?thesis using snoc by simp
  next
    case (Some c')
    show ?thesis
    proof (cases "truthy (crm_uid c')")
      case False
      then have "uniqueContacts (xs @ [x]) = uniqueContacts xs"
        using Some by (simp add: uniqueContacts_snoc set_contact_def)
      moreover have "\<forall>k. k \<noteq> [] \<longrightarrow> crm_uid c' \<noteq> Some k"
        using False by (auto simp: truthy_def)
      then have "?K (xs @ [x]) = ?K xs" using Some by auto
      ultimately show ?thesis using snoc by simp
    next
      case True
      then obtain k' where k': "crm_uid c' = Some k'" "k' \<noteq> []"
        by (auto simp: truthy_def split: option.splits)
      have "uniqueContacts (xs @ [x]) = map_set k' c' (uniqueContacts xs)"
        using Some True k' by (simp add: uniqueContacts_snoc set_contact_def or_empty_def)
      moreover have "set (map fst (map_set k' c' (uniqueContacts xs)))
          = insert k' (set (map fst (uniqueContacts xs)))"
        by (simp add: map_set_keys insert_absorb)
      ultimately have "fst ` set (uniqueContacts (xs @ [x]))
          = insert k' (fst ` set (uniqueContacts xs))"
        by simp
      moreover have "?K (xs @ [x]) = insert k' (?K xs)" using Some k' by auto
      ultimately show ?thesis using snoc by simp
    qed
  qed
qed

lemma uniqueContacts_length: "length (uniqueContacts results) \<le> length results"
proof (induction results rule: rev_induct)
  case Nil
  then show ?case by (simp add: uniqueContacts_def)
next
  case (snoc x xs)
  have "length (set_contact (uniqueContacts xs) x) \<le> Suc (length (uniqueContacts xs))"
    using map_set_length [of _ _ "uniqueContacts xs"]
    by (auto simp: set_contact_def split: option.splits)
  then show ?case using snoc by (simp add: uniqueContacts_snoc)
qed

lemma uniqueContacts_ids:
  "map crm_uid (map snd (uniqueContacts results)) = map Some (map fst (uniqueContacts results))"
proof -
  have "\<forall>p \<in> set (uniqueContacts results). crm_uid (snd p) = Some (fst p)"
    using uniqueContacts_entries by force
  then show ?thesis by (induction "uniqueContacts results") auto
qed

lemma map_set_absent: "k \<notin> fst ` set m \<Longrightarrow> map_set k v m = m @ [(k, v)]"
  by (induction m) auto

lemma uniqueContacts_all_new:
  assumes "distinct (map crm_uid cs)" and "\<forall>c \<in> set cs. truthy (crm_uid c)"
  shows "map snd (uniqueContacts (map Some cs)) = cs"
  using assms
proof (induction cs rule: rev_induct)
  case Nil
  then show ?case by (simp add: uniqueContacts_def)
next
  case (snoc c cs)
  then obtain k where k: "crm_uid c = Some k" "k \<noteq> []"
    by (auto simp: truthy_def split: option.splits)
  have ih: "map snd (uniqueContacts (map Some cs)) = cs" using snoc by simp
  have "crm_uid c \<notin> crm_uid ` set cs" using snoc.prems(1) by simp
  have "k \<notin> fst ` set (uniqueContacts (map Some cs))"
  proof
    assume "k \<in> fst ` set (uniqueContacts (map Some cs))"
    then obtain c' where "Some c' \<in> set (map Some cs)" "crm_uid c' = Some k"
      unfolding uniqueContacts_keys by blast
    then have "crm_uid c \<in> crm_uid ` set cs" using k by force
    then show False using \<open>crm_uid c \<notin> crm_uid ` set cs\<close> by simp
  qed
  then have "uniqueContacts (map Some (cs @ [c])) = uniqueContacts (map Some cs) @ [(k, c)]"
    using k by (simp add: uniqueContacts_snoc set_contact_def truthy_def or_empty_def map_set_absent)
  then show ?case using ih by simp
qed

lemma searchMember_crm_items:
  "fst (searchMember_crm None api firstName lastName dateOfBirth) = Crm_ok r \<Longrightarrow>
     items r = map snd (uniqueContacts
                 (fst (collect_contacts api (crm_firstNameParts firstName)
                         (crm_formattedLastName lastName))))"
  by (auto simp: searchMember_crm_def Let_def split: prod.splits)

text \<open>
  C5. The contact search removes duplicates by identifier: in every list that
  \<open>uniqueContacts\<close> gives no identifier occurs twice, each entry is the last contact of
  the raw results with its identifier, and every identifier of the raw results is kept.
  The items that \<open>searchMember\<close> returns are the unique contacts of the results of all its
  queries.
\<close>

theorem one_entry_per_identifier:
  "distinct (map crm_uid (map snd (uniqueContacts results)))
   \<and> (\<forall>c \<in> set (map snd (uniqueContacts results)).
         \<exists>k. k \<noteq> [] \<and> crm_uid c = Some k \<and> last_with_id results k = Some (Some c))
   \<and> (\<forall>c k. Some c \<in> set results \<and> crm_uid c = Some k \<and> k \<noteq> [] \<longrightarrow>
         Some k \<in> set (map crm_uid (map snd (uniqueContacts results))))
   \<and> (\<forall>r. fst (searchMember_crm None api firstName lastName dateOfBirth) = Crm_ok r \<longrightarrow>
         items r = map snd (uniqueContacts
                     (fst (collect_contacts api (crm_firstNameParts firstName)
                             (crm_formattedLastName lastName))))
         \<and> distinct (map crm_uid (items r)))"
proof -
  have d: "\<And>rs. distinct (map crm_uid (map snd (uniqueContacts rs)))"
  proof -
    fix rs
    have "distinct (map Some (map fst (uniqueContacts rs)))"
      using uniqueContacts_distinct [of rs] by (subst distinct_map) simp
    then show "distinct (map crm_uid (map snd (uniqueContacts rs)))"
      by (simp only: uniqueContacts_ids)
  qed
  have l: "\<forall>c \<in> set (map snd (uniqueContacts results)).
         \<exists>k. k \<noteq> [] \<and> crm_uid c = Some k \<and> last_with_id results k = Some (Some c)"
    using uniqueContacts_entries by fastforce
  have a: "\<forall>c k. Some c \<in> set results \<and> crm_uid c = Some k \<and> k \<noteq> [] \<longrightarrow>
         Some k \<in> set (map crm_uid (map snd (uniqueContacts results)))"
  proof (intro allI impI)
    fix c k
    assume "Some c \<in> set results \<and> crm_uid c = Some k \<and> k \<noteq> []"
    then have "k \<in> fst ` set (uniqueContacts results)" by (auto simp: uniqueContacts_keys)
    then have "Some k \<in> set (map Some (map fst (uniqueContacts results)))" by force
    then show "Some k \<in> set (map crm_uid (map snd (uniqueContacts results)))"
      by (simp only: uniqueContacts_ids)
  qed
  show ?thesis using d l a searchMember_crm_items by simp
qed

theorem one_entry_per_identifier_witness:
  "fst (searchMember_crm None
          (first_names_only [(''Jane'', [Some (crm_example ''id-1'' ''Jane'')]),
                             (''Marie'', [Some (crm_example ''id-1'' ''Jane Marie'')])])
          (Some ''JANE MARIE'') None None)
     = Crm_ok \<lparr> items = [crm_example ''id-1'' ''Jane Marie''], total = 1,
                crm_source = ''wix-crm-contacts'', queryDetails_firstName = ''Jane, Marie'',
                queryDetails_lastName = [], queryDetails_dateOfBirth = [],
                queryDetails_methodUsed = ''queryContacts'' \<rparr>
   \<and> distinct (map crm_uid [crm_example ''id-1'' ''Jane Marie''])
   \<and> Some (crm_example ''id-1'' ''Jane'')
       \<in> set [Some (crm_example ''id-1'' ''Jane''), Some (crm_example ''id-1'' ''Jane Marie'')]
   \<and> crm_uid (crm_example ''id-1'' ''Jane'') = Some ''id-1''
   \<and> Some ''id-1'' \<in> set (map crm_uid (map snd (uniqueContacts
        [Some (crm_example ''id-1'' ''Jane''), Some (crm_example ''id-1'' ''Jane Marie'')])))"
proof -
  let ?api = "first_names_only [(''Jane'', [Some (crm_example ''id-1'' ''Jane'')]),
                             (''Marie'', [Some (crm_example ''id-1'' ''Jane Marie'')])]"
  let ?raw = "[Some (crm_example ''id-1'' ''Jane''), Some (crm_example ''id-1'' ''Jane Marie'')]"
  have parts: "crm_firstNameParts (Some ''JANE MARIE'') = [''Jane'', ''Marie'']"
    by (simp add: crm_firstNameParts_def title_words_def blank_def truthy_def or_empty_def
        js_trim_def is_space_def toLowerCase_def toLowerCase_char_def capitalize_def
        toUpperCase_char_def)
  have last: "crm_formattedLastName None = []"
    by (simp add: crm_formattedLastName_def blank_def truthy_def)
  have raw: "collect_contacts ?api [''Jane'', ''Marie''] [] =
      (?raw, [Starts_with ''info.name.first'' ''Jane'' 50, Starts_with ''info.name.first'' ''Marie'' 50])"
    by (simp add: collect_contacts_def first_names_only_def pushed_items_def Let_def)
  have u: "uniqueContacts ?raw = [(''id-1'', crm_example ''id-1'' ''Jane Marie'')]"
    by (simp add: uniqueContacts_def set_contact_def crm_example_def truthy_def or_empty_def)
  have s: "fst (searchMember_crm None ?api (Some ''JANE MARIE'') None None)
     = Crm_ok \<lparr> items = [crm_example ''id-1'' ''Jane Marie''], total = 1,
                crm_source = ''wix-crm-contacts'', queryDetails_firstName = ''Jane, Marie'',
                queryDetails_lastName = [], queryDetails_dateOfBirth = [],
                queryDetails_methodUsed = ''queryContacts'' \<rparr>"
    by (simp add: searchMember_crm_def parts last raw u or_empty_def)
  from one_entry_per_identifier [of ?raw ?api "Some ''JANE MARIE''" None None]
  have "distinct (map crm_uid (map snd (uniqueContacts ?raw)))"
    and "\<forall>c k. Some c \<in> set ?raw \<and> crm_uid c = Some k \<and> k \<noteq> [] \<longrightarrow>
         Some k \<in> set (map crm_uid (map snd (uniqueContacts ?raw)))"
    by blast+
  moreover have "crm_uid (crm_example ''id-1'' ''Jane'') = Some ''id-1''"
    by (simp add: crm_example_def)
  ultimately show ?thesis using s u by auto
qed

text \<open>
  C10. When the first and the last name are both blank, the contact search sends one
  query, for all contacts with the limit 50, and returns with success what that query
  yields, without duplicates: never more contacts than the query gave, and exactly its
  contacts when they carry distinct identifiers. The date of birth plays no part.
\<close>

theorem blank_names_return_all_contacts:
  assumes "blank firstName" and "blank lastName"
  shows "searchMember_crm None api firstName lastName dateOfBirth
       = (Crm_ok \<lparr> items = map snd (uniqueContacts (all_contacts api)),
                    total = length (uniqueContacts (all_contacts api)),
                    crm_source = ''wix-crm-contacts'', queryDetails_firstName = [],
                    queryDetails_lastName = [], queryDetails_dateOfBirth = or_empty dateOfBirth,
                    queryDetails_methodUsed = ''queryContacts'' \<rparr>,
          [All_contacts 50])
     \<and> length (uniqueContacts (all_contacts api)) \<le> length (all_contacts api)
     \<and> (length (all_contacts api) \<le> 50 \<longrightarrow> length (uniqueContacts (all_contacts api)) \<le> 50)
     \<and> (\<forall>cs. all_contacts api = map Some cs \<and> distinct (map crm_uid cs)
               \<and> (\<forall>c \<in> set cs. truthy (crm_uid c)) \<longrightarrow>
             map snd (uniqueContacts (all_contacts api)) = cs)"
proof (intro conjI allI impI)
  show "searchMember_crm None api firstName lastName dateOfBirth
       = (Crm_ok \<lparr> items = map snd (uniqueContacts (all_contacts api)),
                    total = length (uniqueContacts (all_contacts api)),
                    crm_source = ''wix-crm-contacts'', queryDetails_firstName = [],
                    queryDetails_lastName = [], queryDetails_dateOfBirth = or_empty dateOfBirth,
                    queryDetails_methodUsed = ''queryContacts'' \<rparr>,
          [All_contacts 50])"
    using assms
    by (simp add: searchMember_crm_def crm_firstNameParts_def crm_formattedLastName_def
        collect_contacts_def all_contacts_def Let_def)
  show "length (uniqueContacts (all_contacts api)) \<le> length (all_contacts api)"
    by (rule uniqueContacts_length)
next
  assume "length (all_contacts api) \<le> 50"
  then show "length (uniqueContacts (all_contacts api)) \<le> 50"
    using uniqueContacts_length [of "all_contacts api"] by simp
next
  fix cs
  assume "all_contacts api = map Some cs \<and> distinct (map crm_uid cs)
               \<and> (\<forall>c \<in> set cs. truthy (crm_uid c))"
  then show "map snd (uniqueContacts (all_contacts api)) = cs"
    using uniqueContacts_all_new by simp
qed

theorem blank_names_return_all_contacts_witness:
  "searchMember_crm None
     (all_contacts_only [Some (crm_example ''id-1'' ''Alice''), Some (crm_example ''id-2'' ''Bob'')])
     (Some ''  '') None (Some ''01-15-1990'')
   = (Crm_ok \<lparr> items = [crm_example ''id-1'' ''Alice'', crm_example ''id-2'' ''Bob''], total = 2,
                crm_source = ''wix-crm-contacts'', queryDetails_firstName = [],
                queryDetails_lastName = [], queryDetails_dateOfBirth = ''01-15-1990'',
                queryDetails_methodUsed = ''queryContacts'' \<rparr>,
      [All_contacts 50])"
proof -
  let ?xs = "[Some (crm_example ''id-1'' ''Alice''), Some (crm_example ''id-2'' ''Bob'')]"
  have b: "blank (Some ''  '')" "blank None"
    by (simp_all add: blank_def truthy_def or_empty_def js_trim_def is_space_def)
  have a: "all_contacts (all_contacts_only ?xs) = ?xs"
    by (simp add: all_contacts_def all_contacts_only_def)
  have u: "uniqueContacts ?xs
             = [(''id-1'', crm_example ''id-1'' ''Alice''), (''id-2'', crm_example ''id-2'' ''Bob'')]"
    by (simp add: uniqueContacts_def set_contact_def crm_example_def truthy_def or_empty_def)
  from blank_names_return_all_contacts [OF b, of "all_contacts_only ?xs" "Some ''01-15-1990''"]
  show ?thesis by (simp add: a u or_empty_def)
qed

section \<open>Promotion of exact matches\<close>

lemma add_profiles_eq:
  "add_profiles is_exact ms (rs, f)
     = (rev (map to_profile (filter is_exact ms)) @ rs
          @ map to_profile (filter (\<lambda>m. \<not> is_exact m) ms),
        f \<or> (\<exists>m \<in> set ms. is_exact m))"
  by (induction ms arbitrary: rs f) auto

text \<open>
  The exact-match test of the source, read on the profile that is returned: for a query
  with a first name, a last name and a date of birth, a member passes it when the names
  of its profile equal the title-cased names of the query, ignoring case, and its date
  of birth equals the one of the query.
\<close>

lemma toLowerCase_Nil: "toLowerCase s = [] \<longleftrightarrow> s = []"
  by (simp add: toLowerCase_def)

lemma present_and_equal:
  assumes "w \<noteq> []"
  shows "(truthy v \<and> toLowerCase (or_empty v) = toLowerCase w)
           \<longleftrightarrow> toLowerCase (or_empty v) = toLowerCase w"
proof (cases v)
  case None
  have "toLowerCase w \<noteq> []" using assms by (simp add: toLowerCase_Nil)
  then show ?thesis using None by (simp add: truthy_def or_empty_def toLowerCase_def)
next
  case (Some s)
  have "toLowerCase s = toLowerCase w \<Longrightarrow> s \<noteq> []"
    using assms toLowerCase_Nil [of w] toLowerCase_Nil [of s] by auto
  then show ?thesis using Some by (auto simp: truthy_def or_empty_def)
qed

lemma exact_match_iff:
  assumes "formattedFirstName \<noteq> []" and "formattedLastName \<noteq> []" and "dateOfBirth \<noteq> []"
  shows "exact_match formattedFirstName formattedLastName (Some dateOfBirth) member
     \<longleftrightarrow> toLowerCase (sp_firstName (to_profile member)) = toLowerCase formattedFirstName
         \<and> toLowerCase (sp_lastName (to_profile member)) = toLowerCase formattedLastName
         \<and> sp_dateOfBirth (to_profile member) = dateOfBirth"
proof -
  have d: "item_dateOfBirth member = Some dateOfBirth
      \<longleftrightarrow> or_empty (item_dateOfBirth member) = dateOfBirth"
    using assms(3) by (cases "item_dateOfBirth member") (auto simp: or_empty_def)
  have k: "truthy (Some dateOfBirth)" using assms(3) by (simp add: truthy_def)
  show ?thesis
    unfolding exact_match_def
    using present_and_equal [OF assms(1), of "cd_firstName (contactInfo member)"]
      present_and_equal [OF assms(2), of "cd_lastName (contactInfo member)"] d k
    by (simp add: to_profile_def) blast
qed

text \<open>
  What the loop does with that test: in the list that \<open>findMember\<close> (SDK version)
  returns, the profiles of the matching members that pass the test come first and the
  profiles of the others follow in the order in which the members matched.
\<close>

lemma exact_matches_come_first:
  assumes "truthy WIX_API_KEY"
    and "\<not> (blank firstName \<and> blank lastName \<and> blank dateOfBirth)"
    and "api (Query_items ''Members'' ''status'' ''ACTIVE'') = Inr membersQuery_items"
  shows "\<exists>r. fst (findMember_sdk WIX_API_KEY None api firstName lastName dateOfBirth) = Sdk_found r
           \<and> found_profiles r
               = map to_profile
                   (rev (filter (exact_match (toTitleCase firstName) (toTitleCase lastName) dateOfBirth)
                           (matchingMembers firstName lastName dateOfBirth membersQuery_items)))
                 @ map to_profile
                     (filter (\<lambda>m. \<not> exact_match (toTitleCase firstName) (toTitleCase lastName)
                                      dateOfBirth m)
                        (matchingMembers firstName lastName dateOfBirth membersQuery_items))
           \<and> exactMatch r
               = (\<exists>m \<in> set (matchingMembers firstName lastName dateOfBirth membersQuery_items).
                    exact_match (toTitleCase firstName) (toTitleCase lastName) dateOfBirth m)"
  using assms by (simp add: findMember_sdk_def Let_def add_profiles_eq rev_map)

lemma exact_matches_come_first_example:
  "\<exists>r. fst (findMember_sdk (Some ''key'') None
             (active_members [item_example ''1'' ''Janet'' ''Doe'' ''01-15-1990'',
                              item_example ''2'' ''Jane'' ''Doe'' ''01-15-1990'',
                              item_example ''3'' ''Mary Jane'' ''Doe'' ''01-15-1990''])
             (Some ''JANE'') (Some ''DOE'') (Some ''01-15-1990'')) = Sdk_found r
       \<and> found_profiles r
           = [to_profile (item_example ''2'' ''Jane'' ''Doe'' ''01-15-1990''),
              to_profile (item_example ''1'' ''Janet'' ''Doe'' ''01-15-1990''),
              to_profile (item_example ''3'' ''Mary Jane'' ''Doe'' ''01-15-1990'')]
       \<and> exactMatch r"
proof -
  let ?a = "item_example ''1'' ''Janet'' ''Doe'' ''01-15-1990''"
  let ?b = "item_example ''2'' ''Jane'' ''Doe'' ''01-15-1990''"
  let ?c = "item_example ''3'' ''Mary Jane'' ''Doe'' ''01-15-1990''"
  have k: "truthy (Some ''key'')" by (simp add: truthy_def)
  have q: "\<not> (blank (Some ''JANE'') \<and> blank (Some ''DOE'') \<and> blank (Some ''01-15-1990''))"
    by (simp add: blank_def truthy_def or_empty_def js_trim_def is_space_def)
  have a: "active_members [?a, ?b, ?c] (Query_items ''Members'' ''status'' ''ACTIVE'') = Inr [?a, ?b, ?c]"
    by (simp add: active_members_def)
  have t: "toTitleCase (Some ''JANE'') = ''Jane''" "toTitleCase (Some ''DOE'') = ''Doe''"
    by (simp_all add: normaliser_defs)
  have v: "firstNameVariations ''Jane'' = [''Jane'', ''Jane'']"
    by (simp add: firstNameVariations_def)
  have m: "matchingMembers (Some ''JANE'') (Some ''DOE'') (Some ''01-15-1990'') [?a, ?b, ?c] = [?a, ?b, ?c]"
    by (simp add: matchingMembers_def t v matchingMember_def item_example_def or_empty_def
        toLowerCase_def toLowerCase_char_def blank_def truthy_def js_trim_def is_space_def
        replace_slashes_def Let_def)
  have e: "\<not> exact_match ''Jane'' ''Doe'' (Some ''01-15-1990'') ?a"
    "exact_match ''Jane'' ''Doe'' (Some ''01-15-1990'') ?b"
    "\<not> exact_match ''Jane'' ''Doe'' (Some ''01-15-1990'') ?c"
    by (simp_all add: exact_match_def contactInfo_def item_example_def or_empty_def truthy_def
        toLowerCase_def toLowerCase_char_def)
  from exact_matches_come_first [of "Some ''key''" "Some ''JANE''" "Some ''DOE''"
      "Some ''01-15-1990''" "active_members [?a, ?b, ?c]" "[?a, ?b, ?c]", OF k q a]
  show ?thesis by (simp add: m t e)
qed

text \<open>
  C4. The exact-match test compares the date of birth of a member with the date of the
  query as it was passed, while the filter before it compares with that date after its
  slashes are replaced by dashes. For the query JANE, DOE, 01/15/1990 the member Jane Doe
  born 01-15-1990 passes the filter and equals the title-cased names and the normalised
  date of the query, yet it is not taken for an exact match: it stays behind Janet Doe,
  who matched before it and is not exact, and \<open>exactMatch\<close> is false.
\<close>

theorem exact_match_with_slashes_not_promoted:
  "fst (findMember_sdk (Some ''key'') None
          (active_members [item_example ''1'' ''Janet'' ''Doe'' ''01-15-1990'',
                           item_example ''2'' ''Jane'' ''Doe'' ''01-15-1990''])
          (Some ''JANE'') (Some ''DOE'') (Some ''01/15/1990''))
     = Sdk_found \<lparr> found_profiles
                      = [to_profile (item_example ''1'' ''Janet'' ''Doe'' ''01-15-1990''),
                         to_profile (item_example ''2'' ''Jane'' ''Doe'' ''01-15-1990'')],
                    found_count = 2, exactMatch = False,
                    found_message = ''Found 2 matching members'' \<rparr>
   \<and> toLowerCase (sp_firstName (to_profile (item_example ''2'' ''Jane'' ''Doe'' ''01-15-1990'')))
       = toLowerCase (toTitleCase (Some ''JANE''))
   \<and> toLowerCase (sp_lastName (to_profile (item_example ''2'' ''Jane'' ''Doe'' ''01-15-1990'')))
       = toLowerCase (toTitleCase (Some ''DOE''))
   \<and> sp_dateOfBirth (to_profile (item_example ''2'' ''Jane'' ''Doe'' ''01-15-1990''))
       = replace_slashes ''01/15/1990''
   \<and> toLowerCase (sp_firstName (to_profile (item_example ''1'' ''Janet'' ''Doe'' ''01-15-1990'')))
       \<noteq> toLowerCase (toTitleCase (Some ''JANE''))"
proof -
  let ?a = "item_example ''1'' ''Janet'' ''Doe'' ''01-15-1990''"
  let ?b = "item_example ''2'' ''Jane'' ''Doe'' ''01-15-1990''"
  have k: "truthy (Some ''key'')" by (simp add: truthy_def)
  have q: "\<not> (blank (Some ''JANE'') \<and> blank (Some ''DOE'') \<and> blank (Some ''01/15/1990''))"
    by (simp add: blank_def truthy_def or_empty_def js_trim_def is_space_def)
  have t: "toTitleCase (Some ''JANE'') = ''Jane''" "toTitleCase (Some ''DOE'') = ''Doe''"
    by (simp_all add: normaliser_defs)
  have v: "firstNameVariations ''Jane'' = [''Jane'', ''Jane'']"
    by (simp add: firstNameVariations_def)
  have m: "matchingMembers (Some ''JANE'') (Some ''DOE'') (Some ''01/15/1990'') [?a, ?b] = [?a, ?b]"
    by (simp add: matchingMembers_def t v matchingMember_def item_example_def or_empty_def
        toLowerCase_def toLowerCase_char_def blank_def truthy_def js_trim_def is_space_def
        replace_slashes_def Let_def)
  have e: "\<not> exact_match ''Jane'' ''Doe'' (Some ''01/15/1990'') ?a"
    "\<not> exact_match ''Jane'' ''Doe'' (Some ''01/15/1990'') ?b"
    by (simp_all add: exact_match_def item_example_def)
  have n: "show_nat (Suc (Suc 0)) = ''2''" by (simp add: show_nat.simps)
  have r: "fst (findMember_sdk (Some ''key'') None (active_members [?a, ?b])
                 (Some ''JANE'') (Some ''DOE'') (Some ''01/15/1990''))
      = Sdk_found \<lparr> found_profiles = [to_profile ?a, to_profile ?b],
                     found_count = 2, exactMatch = False,
                     found_message = ''Found 2 matching members'' \<rparr>"
    using k q by (simp add: findMember_sdk_def active_members_def t m e n add_profiles_eq Let_def)
  have p: "toLowerCase (sp_firstName (to_profile ?b)) = toLowerCase ''Jane''"
    "toLowerCase (sp_lastName (to_profile ?b)) = toLowerCase ''Doe''"
    "sp_dateOfBirth (to_profile ?b) = replace_slashes ''01/15/1990''"
    "toLowerCase (sp_firstName (to_profile ?a)) \<noteq> toLowerCase ''Jane''"
    by (simp_all add: to_profile_def contactInfo_def item_example_def or_empty_def
        replace_slashes_def toLowerCase_def toLowerCase_char_def)
  show ?thesis using r p by (simp add: t)
qed


section \<open>Queries without criteria\<close>

lemma trimmed_blank: "blank v \<Longrightarrow> trimmed v = None"
  by (simp add: trimmed_def)

text \<open>
  C9. When first name, last name and date of birth are all absent or blank, the
  lookups (\<open>findMember\<close> in both versions and the \<open>searchMember\<close> of the members module)
  send no request and return a failure; with the service configured (the API key set,
  the adapter initialised with its members module), the error is the one that asks for
  at least one search parameter.
\<close>

theorem blank_query_is_rejected:
  assumes "blank firstName" and "blank lastName" and "blank dateOfBirth"
  shows "snd (findMember WIX_API_KEY api firstName lastName dateOfBirth) = []
     \<and> (\<exists>e. fst (findMember WIX_API_KEY api firstName lastName dateOfBirth) = Failed e)
     \<and> (truthy WIX_API_KEY \<longrightarrow>
          fst (findMember WIX_API_KEY api firstName lastName dateOfBirth)
            = Failed ''At least one search parameter (firstName, lastName, or dateOfBirth) is required'')
     \<and> snd (findMember_sdk WIX_API_KEY initialize_error sdk_api firstName lastName dateOfBirth) = []
     \<and> (\<exists>e. fst (findMember_sdk WIX_API_KEY initialize_error sdk_api firstName lastName dateOfBirth)
            = Sdk_find_failed e)
     \<and> (truthy WIX_API_KEY \<longrightarrow>
          fst (findMember_sdk WIX_API_KEY initialize_error sdk_api firstName lastName dateOfBirth)
            = Sdk_find_failed
                ''At least one search parameter (firstName, lastName, or dateOfBirth) is required'')
     \<and> snd (searchMember client members_api firstName lastName dateOfBirth) = []
     \<and> (\<exists>e s. fst (searchMember client members_api firstName lastName dateOfBirth) = Sdk_failed e s)
     \<and> (initialize_raises client = None \<and> membersModule client \<longrightarrow>
          fst (searchMember client members_api firstName lastName dateOfBirth)
            = Sdk_failed
                ''At least one search parameter (firstName, lastName, or dateOfBirth) is required''
                None)"
proof -
  have f: "findMember WIX_API_KEY api firstName lastName dateOfBirth
      = (if truthy WIX_API_KEY
         then Failed ''At least one search parameter (firstName, lastName, or dateOfBirth) is required''
         else Failed ''Wix API key not set. Please add it to wix.config.json.'', [])"
    using assms by (simp add: findMember_def)
  have s: "findMember_sdk WIX_API_KEY initialize_error sdk_api firstName lastName dateOfBirth
      = (if truthy WIX_API_KEY
         then Sdk_find_failed
                ''At least one search parameter (firstName, lastName, or dateOfBirth) is required''
         else Sdk_find_failed ''Wix API key not set. Please add it to wix.config.json.'', [])"
    using assms by (simp add: findMember_sdk_def)
  have m: "searchMember client members_api firstName lastName dateOfBirth
      = (case initialize_raises client of
           Some message \<Rightarrow> Sdk_failed message (Some ''wix-sdk-adapter'')
         | None \<Rightarrow>
             if \<not> membersModule client
             then Sdk_failed ''Members module not available in the SDK client'' (Some ''wix-sdk-adapter'')
             else Sdk_failed
                    ''At least one search parameter (firstName, lastName, or dateOfBirth) is required''
                    None,
         [])"
    using assms by (simp add: searchMember_def trimmed_blank split: option.splits)
  show ?thesis
    unfolding f s m by (simp split: option.splits)
qed

theorem blank_query_is_rejected_witness:
  "findMember (Some ''key'') unreachable (Some ''  '') None (Some [])
     = (Failed ''At least one search parameter (firstName, lastName, or dateOfBirth) is required'', [])
   \<and> findMember_sdk (Some ''key'') None (active_members []) (Some ''  '') None (Some [])
     = (Sdk_find_failed
          ''At least one search parameter (firstName, lastName, or dateOfBirth) is required'', [])
   \<and> searchMember \<lparr> initialize_raises = None, membersModule = True, has_queryMembers = True,
                     has_listMembers = True, sdkVersion = ''1.0.0'' \<rparr>
        no_members_module (Some ''  '') None (Some [])
     = (Sdk_failed ''At least one search parameter (firstName, lastName, or dateOfBirth) is required''
          None, [])"
proof -
  have b: "blank (Some ''  '')" "blank None" "blank (Some [])"
    by (simp_all add: blank_def truthy_def or_empty_def js_trim_def is_space_def)
  have k: "truthy (Some ''key'')" by (simp add: truthy_def)
  from blank_query_is_rejected [OF b, of "Some ''key''" unreachable None "active_members []"
      "\<lparr> initialize_raises = None, membersModule = True, has_queryMembers = True,
         has_listMembers = True, sdkVersion = ''1.0.0'' \<rparr>" no_members_module]
  show ?thesis using k by (simp add: prod_eq_iff)
qed


end
